theory Spec2Isabelle
  imports Main
begin

section \<open>The analyzer context of CodeChecker (analyzer\_context.py)\<close>

text \<open>
  A shallow embedding of \<^verbatim>\<open>codechecker_analyzer/analyzer_context.py\<close>: the class
  \<^verbatim>\<open>Context\<close>, its private helper methods, the read accessors the properties below
  are about, and the module function \<^verbatim>\<open>get_context\<close>.

  Everything the Python code reads from outside (the process environment, the file
  system, the JSON files, the logger's level, and the helpers of other modules) is a
  field of one record, \<open>world\<close>. Everything the code writes besides the attributes of
  \<^verbatim>\<open>self\<close> (log calls, the printed traceback) is collected, in order, in a list of
  \<open>event\<close>s. A raised exception and \<^verbatim>\<open>sys.exit\<close> are values of an outcome
  type.
\<close>

subsection \<open>Python values, exceptions and outcomes\<close>

text \<open>
  What \<^verbatim>\<open>json.load\<close> produces. Objects are association lists in file order (a Python
  dict keeps insertion order and has no duplicate keys: see \<open>wf_dict\<close>). JSON numbers
  are modelled as integers; the code below never computes with a number, it only tests
  it for truth and fails with a type error when it meets one where a string is needed.
\<close>

datatype json =
  JNull
  | JBool bool
  | JNum int
  | JStr string
  | JList "json list"
  | JObj "(string \<times> json) list"

datatype exc =
  KeyError
  | ValueError string
  | TypeError
  | AttributeError

datatype 'a outcome =
  Normal 'a
  | Raise exc
  | Exit int

datatype level = DEBUG | INFO | ERROR

datatype logmsg = Text string | Obj json

datatype event =
  Log level logmsg
  | PrintExc exc

type_synonym 'a res = "'a outcome \<times> event list"

definition ret :: "'a \<Rightarrow> 'a res" where
  "ret x = (Normal x, [])"

definition raise :: "exc \<Rightarrow> 'a res" where
  "raise e = (Raise e, [])"

definition sys_exit :: "int \<Rightarrow> 'a res" where
  "sys_exit n = (Exit n, [])"

definition LOG :: "level \<Rightarrow> logmsg \<Rightarrow> unit res" where
  "LOG l m = (Normal (), [Log l m])"

text \<open>Sequencing: the second computation runs only when the first returned normally.\<close>

definition bind :: "'a res \<Rightarrow> ('a \<Rightarrow> 'b res) \<Rightarrow> 'b res" where
  "bind r f =
     (case r of
        (Normal x, out) \<Rightarrow> (case f x of (r', out') \<Rightarrow> (r', out @ out'))
      | (Raise e, out) \<Rightarrow> (Raise e, out)
      | (Exit n, out) \<Rightarrow> (Exit n, out))"

definition lift :: "exc + 'a \<Rightarrow> 'a res" where
  "lift x = (case x of Inl e \<Rightarrow> raise e | Inr v \<Rightarrow> ret v)"

text \<open>Truth value of a Python object (\<^verbatim>\<open>if not x\<close>).\<close>

fun truthy :: "json \<Rightarrow> bool" where
  "truthy JNull = False"
| "truthy (JBool b) = b"
| "truthy (JNum n) = (n \<noteq> 0)"
| "truthy (JStr s) = (s \<noteq> [])"
| "truthy (JList xs) = (xs \<noteq> [])"
| "truthy (JObj kvs) = (kvs \<noteq> [])"

text \<open>\<^verbatim>\<open>d[key]\<close> with a string key: only a dict can answer; a missing key is a key error.\<close>

fun py_getitem :: "json \<Rightarrow> string \<Rightarrow> exc + json" where
  "py_getitem (JObj kvs) k =
     (case map_of kvs k of None \<Rightarrow> Inl KeyError | Some v \<Rightarrow> Inr v)"
| "py_getitem _ k = Inl TypeError"

text \<open>\<^verbatim>\<open>d.get(key, default)\<close>: only a dict has the method.\<close>

fun py_get :: "json \<Rightarrow> string \<Rightarrow> json \<Rightarrow> exc + json" where
  "py_get (JObj kvs) k d = (case map_of kvs k of None \<Rightarrow> Inr d | Some v \<Rightarrow> Inr v)"
| "py_get _ k d = Inl AttributeError"

text \<open>A value used where the code needs a \<^verbatim>\<open>str\<close> (path functions, concatenation).\<close>

fun as_str :: "json \<Rightarrow> exc + string" where
  "as_str (JStr s) = Inr s"
| "as_str _ = Inl TypeError"

definition wf_dict :: "(string \<times> 'a) list \<Rightarrow> bool" where
  "wf_dict kvs = distinct (map fst kvs)"

subsection \<open>Strings and paths (\<^verbatim>\<open>str.split\<close>, \<^verbatim>\<open>posixpath\<close>)\<close>

definition quote :: string where
  "quote = [CHR 0x27]"

text \<open>\<^verbatim>\<open>s.split(c)\<close> with an explicit separator: never empty, keeps empty fields.\<close>

fun split_on :: "char \<Rightarrow> string \<Rightarrow> string list" where
  "split_on c [] = [[]]"
| "split_on c (x # xs) =
     (if x = c then [] # split_on c xs
      else (case split_on c xs of
              [] \<Rightarrow> [[x]]
            | w # ws \<Rightarrow> (x # w) # ws))"

definition endswith :: "string \<Rightarrow> string \<Rightarrow> bool" where
  "endswith s suffix = (length suffix \<le> length s \<and> drop (length s - length suffix) s = suffix)"

text \<open>\<^verbatim>\<open>os.path.basename\<close>: what follows the last slash.\<close>

definition os_path_basename :: "string \<Rightarrow> string" where
  "os_path_basename p = rev (takeWhile (\<lambda>c. c \<noteq> CHR ''/'') (rev p))"

text \<open>
  \<^verbatim>\<open>os.path.dirname\<close>: the part up to and including the last slash, with its trailing
  slashes removed unless it consists of slashes only.
\<close>

definition os_path_dirname :: "string \<Rightarrow> string" where
  "os_path_dirname p =
     (let head = rev (dropWhile (\<lambda>c. c \<noteq> CHR ''/'') (rev p))
      in if head \<noteq> [] \<and> head \<noteq> replicate (length head) (CHR ''/'')
         then rev (dropWhile (\<lambda>c. c = CHR ''/'') (rev head))
         else head)"

definition join2 :: "string \<Rightarrow> string \<Rightarrow> string" where
  "join2 path b =
     (if b \<noteq> [] \<and> hd b = CHR ''/'' then b
      else if path = [] \<or> last path = CHR ''/'' then path @ b
      else path @ ''/'' @ b)"

text \<open>\<^verbatim>\<open>os.path.join(a, *p)\<close>.\<close>

definition os_path_join :: "string \<Rightarrow> string list \<Rightarrow> string" where
  "os_path_join a p = foldl join2 a p"

subsection \<open>The world outside the module\<close>

text \<open>
  The helpers of other modules are taken as they are used: \<open>analyzer_binary\<close>
  (\<^verbatim>\<open>codechecker_analyzer.arg\<close>) returns a pair or raises \<^verbatim>\<open>ArgumentTypeError\<close> with a
  message; \<open>load_json\<close> (\<^verbatim>\<open>codechecker_common.util\<close>) returns the parsed file, and an
  empty value for a file that is missing; \<open>env_is_analyzer_from_path\<close> and
  \<open>env_extend\<close> are the two functions of the sibling module \<^verbatim>\<open>env\<close>; \<open>CheckerLabels\<close>
  is the constructor of the label store, identified here with its directory;
  \<open>logger_DEBUG\<close> and \<open>logger_DEBUG_ANALYZER\<close> are the two level constants of
  \<^verbatim>\<open>codechecker_common.logger\<close>. \<open>find_executable\<close> is distutils'.
\<close>

record world =
  os_environ :: "string \<rightharpoonup> string"
  os_path_exists :: "string \<Rightarrow> bool"
  os_path_isfile :: "string \<Rightarrow> bool"
  os_path_realpath :: "string \<Rightarrow> string"
  find_executable :: "string \<Rightarrow> string option \<Rightarrow> string option"
  uname_machine :: string
  load_json :: "string \<Rightarrow> json"
  LOG_getEffectiveLevel :: int
  logger_DEBUG :: int
  logger_DEBUG_ANALYZER :: int
  env_is_analyzer_from_path :: bool
  env_extend :: "string list \<Rightarrow> string list \<Rightarrow> (string \<times> string) list"
  analyzer_binary :: "string \<Rightarrow> string + (string \<times> string)"
  CheckerLabels :: "string \<Rightarrow> string res"

subsection \<open>The attributes of \<^verbatim>\<open>self\<close>\<close>

text \<open>
  Fields \<open>priv_*\<close> are the name-mangled attributes (\<^verbatim>\<open>self.__analyzers\<close>, ...). An
  attribute that Python has not created yet holds \<open>None\<close> (\<open>JNull\<close>) here; no method
  reads one before the constructor has assigned it.
\<close>

record ctx =
  bin_dir_path :: string
  lib_dir_path :: string
  data_files_dir_path :: string
  env_vars :: json
  pckg_layout :: json
  checker_labels :: string
  priv_package_version :: json
  priv_package_build_date :: json
  priv_package_git_hash :: json
  priv_package_git_tag :: json
  priv_analyzers :: "string \<rightharpoonup> string"
  priv_analyzer_env :: "(string \<times> string) list option"
  logger_lib_dir_path :: string
  logger_bin :: "string option"
  logger_file :: "string option"
  logger_compilers :: "string option"
  ld_preload :: "string option"
  ld_lib_path :: json
  priv_replacer :: "string option"

subsection \<open>\<^verbatim>\<open>Context.__parse_CC_ANALYZER_BIN\<close>\<close>

definition not_a_binary_msg :: "string \<Rightarrow> string" where
  "not_a_binary_msg path =
     quote @ path @ quote @ '' is not a path to an analyzer binary given to CC_ANALYZER_BIN!''"

definition using_msg :: "string \<Rightarrow> string \<Rightarrow> string" where
  "using_msg path analyzer_name =
     ''Using '' @ quote @ path @ quote @ '' for analyzer '' @ quote @ analyzer_name @ quote"

definition usage_hint :: string where
  "usage_hint =
     ''The value of CC_ANALYZER_BIN should be in theformat of CC_ANALYZER_BIN='' @ quote @
     ''<analyzer1>:/path/to/bin1;<analyzer2>:/path/to/bin2'' @ quote"

text \<open>
  The \<^verbatim>\<open>for value in ...split(';')\<close> loop. Its state is the flag \<^verbatim>\<open>had_error\<close>, the
  dict \<^verbatim>\<open>env_var_bins\<close> and the events emitted so far.
\<close>

fun parse_entries ::
  "world \<Rightarrow> string list \<Rightarrow> bool \<times> (string \<rightharpoonup> string) \<times> event list
     \<Rightarrow> bool \<times> (string \<rightharpoonup> string) \<times> event list" where
  "parse_entries w [] st = st"
| "parse_entries w (v # rest) (had_error, env_var_bins, out) =
     (case analyzer_binary w v of
        Inl e \<Rightarrow> parse_entries w rest (True, env_var_bins, out @ [Log ERROR (Text e)])
      | Inr (analyzer_name, path) \<Rightarrow>
          (if \<not> os_path_isfile w path
           then parse_entries w rest
                  (True, env_var_bins, out @ [Log ERROR (Text (not_a_binary_msg path))])
           else if had_error
           then parse_entries w rest (had_error, env_var_bins, out)
           else parse_entries w rest
                  (had_error, env_var_bins(analyzer_name \<mapsto> path),
                   out @ [Log INFO (Text (using_msg path analyzer_name))])))"

definition parse_CC_ANALYZER_BIN :: "world \<Rightarrow> ctx \<Rightarrow> (string \<rightharpoonup> string) res" where
  "parse_CC_ANALYZER_BIN w self =
     (case priv_analyzer_env self of
        None \<Rightarrow> raise TypeError
      | Some analyzer_env \<Rightarrow>
          (case map_of analyzer_env ''CC_ANALYZER_BIN'' of
             None \<Rightarrow> ret Map.empty
           | Some val \<Rightarrow>
               (case parse_entries w (split_on (CHR '';'') val) (False, Map.empty, []) of
                  (had_error, env_var_bins, out) \<Rightarrow>
                    if had_error
                    then (Exit 1, out @ [Log INFO (Text usage_hint)])
                    else (Normal env_var_bins, out))))"

subsection \<open>Reading the two configuration files\<close>

definition no_config_msg :: "string \<Rightarrow> string" where
  "no_config_msg file =
     ''No configuration file '' @ quote @ file @ quote @ '' can be found or it is empty!''"

definition get_package_config :: "world \<Rightarrow> ctx \<Rightarrow> json res" where
  "get_package_config w self =
     (let pckg_config_file =
            os_path_join (data_files_dir_path self) [''config'', ''config.json'']
      in bind (LOG DEBUG (Text (''Reading config: '' @ pckg_config_file))) (\<lambda>_.
         let cfg_dict = load_json w pckg_config_file
         in if \<not> truthy cfg_dict
            then raise (ValueError (no_config_msg pckg_config_file))
            else bind (LOG DEBUG (Obj cfg_dict)) (\<lambda>_. ret cfg_dict)))"

definition get_package_layout :: "world \<Rightarrow> ctx \<Rightarrow> json res" where
  "get_package_layout w self =
     (let layout_cfg_file =
            os_path_join (data_files_dir_path self) [''config'', ''package_layout.json'']
      in bind (LOG DEBUG (Text (''Reading config: '' @ layout_cfg_file))) (\<lambda>_.
         let lcfg_dict = load_json w layout_cfg_file
         in if \<not> truthy lcfg_dict
            then raise (ValueError (no_config_msg layout_cfg_file))
            else ret lcfg_dict))"

subsection \<open>\<^verbatim>\<open>Context.__init_env\<close>\<close>

text \<open>\<^verbatim>\<open>os.environ.get(key)\<close>: the key must be a string.\<close>

definition environ_get :: "world \<Rightarrow> json \<Rightarrow> exc + string option" where
  "environ_get w key = (case as_str key of Inl e \<Rightarrow> Inl e | Inr k \<Rightarrow> Inr (os_environ w k))"

definition env_var_lookup :: "world \<Rightarrow> ctx \<Rightarrow> string \<Rightarrow> string option res" where
  "env_var_lookup w self role =
     bind (lift (py_getitem (env_vars self) role)) (\<lambda>name. lift (environ_get w name))"

definition init_env :: "world \<Rightarrow> ctx \<Rightarrow> ctx res" where
  "init_env w self =
     bind (env_var_lookup w self ''cc_logger_bin'') (\<lambda>lb.
     bind (env_var_lookup w self ''cc_logger_file'') (\<lambda>lf.
     bind (env_var_lookup w self ''cc_logger_compiles'') (\<lambda>lc.
     bind (env_var_lookup w self ''ld_preload'') (\<lambda>lp.
     bind (lift (py_getitem (env_vars self) ''env_ld_lib_path'')) (\<lambda>ll.
     ret (self\<lparr>logger_bin := lb, logger_file := lf, logger_compilers := lc,
               ld_preload := lp, ld_lib_path := ll\<rparr>))))))"

subsection \<open>\<^verbatim>\<open>Context.__set_version\<close>\<close>

definition version_file :: "ctx \<Rightarrow> string" where
  "version_file self =
     os_path_join (data_files_dir_path self) [''config'', ''analyzer_version.json'']"

fun as_int :: "json \<Rightarrow> int option" where
  "as_int (JNum n) = Some n"
| "as_int (JBool b) = Some (if b then 1 else 0)"
| "as_int _ = None"

text \<open>The operator \<^verbatim>\<open>+\<close> on the values a JSON file can hold.\<close>

definition py_add :: "json \<Rightarrow> json \<Rightarrow> exc + json" where
  "py_add a b =
     (case (a, b) of
        (JStr x, JStr y) \<Rightarrow> Inr (JStr (x @ y))
      | (JList x, JList y) \<Rightarrow> Inr (JList (x @ y))
      | _ \<Rightarrow> (case (as_int a, as_int b) of
                (Some x, Some y) \<Rightarrow> Inr (JNum (x + y))
              | _ \<Rightarrow> Inl TypeError))"

fun is_substr :: "string \<Rightarrow> string \<Rightarrow> bool" where
  "is_substr n [] = (n = [])"
| "is_substr n (h # hs) = (take (length n) (h # hs) = n \<or> is_substr n hs)"

text \<open>\<^verbatim>\<open>key in x\<close> for a string key.\<close>

fun py_contains :: "string \<Rightarrow> json \<Rightarrow> exc + bool" where
  "py_contains k (JObj kvs) = Inr (map_of kvs k \<noteq> None)"
| "py_contains k (JList xs) = Inr (JStr k \<in> set xs)"
| "py_contains k (JStr s) = Inr (is_substr k s)"
| "py_contains k _ = Inl TypeError"

text \<open>
  The conditional expression
  \<^verbatim>\<open>'-rc' + package_version['rc'] if 'rc' in package_version and package_version['rc'] else ''\<close>.
\<close>

definition rc_suffix :: "json \<Rightarrow> json res" where
  "rc_suffix package_version =
     bind (lift (py_contains ''rc'' package_version)) (\<lambda>has_rc.
     if \<not> has_rc then ret (JStr [])
     else bind (lift (py_getitem package_version ''rc'')) (\<lambda>c.
          if \<not> truthy c then ret (JStr [])
          else bind (lift (py_getitem package_version ''rc'')) (\<lambda>rc.
               lift (py_add (JStr ''-rc'') rc))))"

text \<open>The version string, its operands evaluated from left to right.\<close>

definition version_string :: "json \<Rightarrow> json res" where
  "version_string package_version =
     bind (lift (py_getitem package_version ''major'')) (\<lambda>major.
     bind (lift (py_add major (JStr ''.''))) (\<lambda>s1.
     bind (lift (py_getitem package_version ''minor'')) (\<lambda>minor.
     bind (lift (py_add s1 minor)) (\<lambda>s2.
     bind (lift (py_add s2 (JStr ''.''))) (\<lambda>s3.
     bind (lift (py_getitem package_version ''revision'')) (\<lambda>revision.
     bind (lift (py_add s3 revision)) (\<lambda>s4.
     bind (rc_suffix package_version) (\<lambda>suffix.
     lift (py_add s4 suffix)))))))))"

definition set_version :: "world \<Rightarrow> ctx \<Rightarrow> ctx res" where
  "set_version w self =
     (let vfile_data = load_json w (version_file self)
      in if \<not> truthy vfile_data then sys_exit 1
         else
           bind (lift (py_getitem vfile_data ''version'')) (\<lambda>package_version.
           bind (lift (py_getitem vfile_data ''package_build_date'')) (\<lambda>package_build_date.
           bind (lift (py_get vfile_data ''git_hash'' JNull)) (\<lambda>package_git_hash.
           bind (lift (py_get vfile_data ''git_describe'' (JObj []))) (\<lambda>d1.
           bind (lift (py_get d1 ''tag'' JNull)) (\<lambda>package_git_tag.
           bind (lift (py_get vfile_data ''git_describe'' (JObj []))) (\<lambda>d2.
           bind (lift (py_get d2 ''dirty'' JNull)) (\<lambda>package_git_dirtytag.
           bind (version_string package_version) (\<lambda>v.
           ret (self\<lparr>priv_package_version := v,
                     priv_package_build_date := package_build_date,
                     priv_package_git_hash := package_git_hash,
                     priv_package_git_tag :=
                       (if LOG_getEffectiveLevel w = logger_DEBUG w \<or>
                           LOG_getEffectiveLevel w = logger_DEBUG_ANALYZER w
                        then package_git_dirtytag else package_git_tag)\<rparr>))))))))))"

subsection \<open>The accessors used while the analyzers are resolved\<close>

text \<open>What a \<^verbatim>\<open>for\<close> loop iterates over: list elements, dict keys, characters.\<close>

fun py_iter :: "json \<Rightarrow> exc + json list" where
  "py_iter (JList xs) = Inr xs"
| "py_iter (JObj kvs) = Inr (map (\<lambda>kv. JStr (fst kv)) kvs)"
| "py_iter (JStr s) = Inr (map (\<lambda>c. JStr [c]) s)"
| "py_iter _ = Inl TypeError"

text \<open>
  The loop \<^verbatim>\<open>for path in extra: paths.append(os.path.join(self._data_files_dir_path, path))\<close>.
\<close>

fun join_each :: "string \<Rightarrow> json list \<Rightarrow> exc + string list" where
  "join_each root [] = Inr []"
| "join_each root (p # ps) =
     (case as_str p of
        Inl e \<Rightarrow> Inl e
      | Inr path \<Rightarrow>
          (case join_each root ps of
             Inl e \<Rightarrow> Inl e
           | Inr paths \<Rightarrow> Inr (os_path_join root [path] # paths)))"

definition extra_paths_of :: "ctx \<Rightarrow> string \<Rightarrow> string list res" where
  "extra_paths_of self key =
     bind (lift (py_get (pckg_layout self) key (JList []))) (\<lambda>extra.
     bind (lift (py_iter extra)) (\<lambda>items.
     lift (join_each (data_files_dir_path self) items)))"

definition path_env_extra :: "world \<Rightarrow> ctx \<Rightarrow> string list res" where
  "path_env_extra w self =
     (if env_is_analyzer_from_path w then ret []
      else extra_paths_of self ''path_env_extra'')"

definition ld_lib_path_extra :: "world \<Rightarrow> ctx \<Rightarrow> string list res" where
  "ld_lib_path_extra w self =
     (if env_is_analyzer_from_path w then ret []
      else extra_paths_of self ''ld_lib_path_extra'')"

text \<open>
  The property \<^verbatim>\<open>analyzer_env\<close> computes the extended environment on first use and
  caches it in \<^verbatim>\<open>self.__analyzer_env\<close>: it returns the value and the updated object.
  An empty dict is false in Python, so an empty cached environment is computed again.
\<close>

definition analyzer_env :: "world \<Rightarrow> ctx \<Rightarrow> ((string \<times> string) list \<times> ctx) res" where
  "analyzer_env w self =
     (case priv_analyzer_env self of
        Some e \<Rightarrow>
          if e \<noteq> [] then ret (e, self)
          else bind (path_env_extra w self) (\<lambda>pe.
               bind (ld_lib_path_extra w self) (\<lambda>le.
               let e' = env_extend w pe le
               in ret (e', self\<lparr>priv_analyzer_env := Some e'\<rparr>)))
      | None \<Rightarrow>
          bind (path_env_extra w self) (\<lambda>pe.
          bind (ld_lib_path_extra w self) (\<lambda>le.
          let e' = env_extend w pe le
          in ret (e', self\<lparr>priv_analyzer_env := Some e'\<rparr>))))"

definition version :: "ctx \<Rightarrow> json" where
  "version self = priv_package_version self"

definition package_git_tag :: "ctx \<Rightarrow> json" where
  "package_git_tag self = priv_package_git_tag self"

definition analyzer_binaries :: "ctx \<Rightarrow> (string \<rightharpoonup> string)" where
  "analyzer_binaries self = priv_analyzers self"

definition replacer_binary :: "ctx \<Rightarrow> string option" where
  "replacer_binary self = priv_replacer self"

subsection \<open>\<^verbatim>\<open>Context.__populate_analyzers\<close>\<close>

definition not_found_msg :: "string \<Rightarrow> string" where
  "not_found_msg v = quote @ v @ quote @ '' binary can not be found in your PATH!''"

text \<open>\<^verbatim>\<open>analyzer_env['PATH'] if analyzer_env else None\<close>.\<close>

definition env_path_of :: "(string \<times> string) list option \<Rightarrow> exc + string option" where
  "env_path_of a_env =
     (case a_env of
        None \<Rightarrow> Inr None
      | Some e \<Rightarrow>
          if e = [] then Inr None
          else (case map_of e ''PATH'' of None \<Rightarrow> Inl KeyError | Some p \<Rightarrow> Inr (Some p)))"

text \<open>
  One iteration of the loop over \<^verbatim>\<open>compiler_binaries.items()\<close>, from the current
  \<^verbatim>\<open>self.__analyzers\<close> to the next. \<^verbatim>\<open>find_executable\<close> answers \<open>None\<close> or a path; an
  empty path is as false as \<open>None\<close>.
\<close>

definition resolve_analyzer ::
  "world \<Rightarrow> ctx \<Rightarrow> bool \<Rightarrow> (string \<times> string) list option \<Rightarrow> (string \<rightharpoonup> string)
     \<Rightarrow> string \<times> json \<Rightarrow> (string \<rightharpoonup> string) \<Rightarrow> (string \<rightharpoonup> string) res" where
  "resolve_analyzer w self analyzer_from_path a_env env_var_bin item analyzers =
     (case item of (name, value0) \<Rightarrow>
        (case env_var_bin name of
           Some p \<Rightarrow> ret (analyzers(name \<mapsto> p))
         | None \<Rightarrow>
             bind (if analyzer_from_path
                   then bind (lift (as_str value0)) (\<lambda>s. ret (JStr (os_path_basename s)))
                   else ret value0) (\<lambda>value1.
             bind (lift (as_str value1)) (\<lambda>val.
             if os_path_dirname val \<noteq> []
             then ret (analyzers(name \<mapsto> os_path_join (data_files_dir_path self) [val]))
             else
               bind (lift (env_path_of a_env)) (\<lambda>env_path.
               (case find_executable w val env_path of
                  None \<Rightarrow> bind (LOG DEBUG (Text (not_found_msg val))) (\<lambda>_. ret analyzers)
                | Some compiler_binary \<Rightarrow>
                    if compiler_binary = []
                    then bind (LOG DEBUG (Text (not_found_msg val))) (\<lambda>_. ret analyzers)
                    else if endswith (os_path_realpath w compiler_binary) ''/ccache''
                    then ret (analyzers(name \<mapsto> compiler_binary))
                    else ret (analyzers(name \<mapsto> os_path_realpath w compiler_binary))))))))"

fun resolve_all ::
  "world \<Rightarrow> ctx \<Rightarrow> bool \<Rightarrow> (string \<times> string) list option \<Rightarrow> (string \<rightharpoonup> string)
     \<Rightarrow> (string \<times> json) list \<Rightarrow> (string \<rightharpoonup> string) \<Rightarrow> (string \<rightharpoonup> string) res" where
  "resolve_all w self afp aenv evb [] analyzers = ret analyzers"
| "resolve_all w self afp aenv evb (item # rest) analyzers =
     bind (resolve_analyzer w self afp aenv evb item analyzers)
       (\<lambda>analyzers'. resolve_all w self afp aenv evb rest analyzers')"

text \<open>\<^verbatim>\<open>x.items()\<close>: only a dict has the method.\<close>

fun py_items :: "json \<Rightarrow> exc + (string \<times> json) list" where
  "py_items (JObj kvs) = Inr kvs"
| "py_items _ = Inl AttributeError"

definition populate_analyzers :: "world \<Rightarrow> ctx \<Rightarrow> ctx res" where
  "populate_analyzers w self =
     (let analyzer_from_path = env_is_analyzer_from_path w
      in bind (if \<not> analyzer_from_path
               then bind (analyzer_env w self) (\<lambda>(e, self'). ret (Some e, self'))
               else ret (None, self)) (\<lambda>(a_env, self1).
         bind (parse_CC_ANALYZER_BIN w self1) (\<lambda>env_var_bin.
         bind (lift (py_get (pckg_layout self1) ''analyzers'' JNull)) (\<lambda>compiler_binaries.
         bind (lift (py_items compiler_binaries)) (\<lambda>items.
         bind (resolve_all w self1 analyzer_from_path a_env env_var_bin items
                 (priv_analyzers self1)) (\<lambda>analyzers.
         ret (self1\<lparr>priv_analyzers := analyzers\<rparr>)))))))"

subsection \<open>\<^verbatim>\<open>Context.__populate_replacer\<close>\<close>

definition populate_replacer :: "world \<Rightarrow> ctx \<Rightarrow> ctx res" where
  "populate_replacer w self =
     bind (lift (py_get (pckg_layout self) ''clang-apply-replacements'' JNull)) (\<lambda>rb.
     bind (lift (as_str rb)) (\<lambda>replacer_binary.
     if os_path_dirname replacer_binary \<noteq> []
     then ret (self\<lparr>priv_replacer :=
                 Some (os_path_join (data_files_dir_path self) [replacer_binary])\<rparr>)
     else ret (self\<lparr>priv_replacer := find_executable w replacer_binary None\<rparr>)))"

subsection \<open>The constructor and \<^verbatim>\<open>get_context\<close>\<close>

definition environ_get_default :: "world \<Rightarrow> string \<Rightarrow> string \<Rightarrow> string" where
  "environ_get_default w k d = (case os_environ w k of None \<Rightarrow> d | Some v \<Rightarrow> v)"

definition new_ctx :: "world \<Rightarrow> ctx" where
  "new_ctx w =
     \<lparr>bin_dir_path = environ_get_default w ''CC_BIN_DIR'' [],
      lib_dir_path = environ_get_default w ''CC_LIB_DIR'' [],
      data_files_dir_path = environ_get_default w ''CC_DATA_FILES_DIR'' [],
      env_vars = JNull, pckg_layout = JNull, checker_labels = [],
      priv_package_version = JNull, priv_package_build_date = JNull,
      priv_package_git_hash = JNull, priv_package_git_tag = JNull,
      priv_analyzers = Map.empty, priv_analyzer_env = None,
      logger_lib_dir_path = [],
      logger_bin = None, logger_file = None, logger_compilers = None,
      ld_preload = None, ld_lib_path = JNull, priv_replacer = None\<rparr>"

definition labels_dir_of :: "world \<Rightarrow> ctx \<Rightarrow> string" where
  "labels_dir_of w self =
     (case os_environ w ''CC_TEST_LABELS_DIR'' of
        Some d \<Rightarrow> d
      | None \<Rightarrow> os_path_join (data_files_dir_path self) [''config'', ''labels''])"

definition logger_lib_dir_of :: "world \<Rightarrow> ctx \<Rightarrow> string" where
  "logger_lib_dir_of w self =
     (let bundled = os_path_join (data_files_dir_path self)
                      [''ld_logger'', ''lib'', uname_machine w]
      in if \<not> os_path_exists w bundled
         then os_path_join (lib_dir_path self)
                [''codechecker_analyzer'', ''ld_logger'', ''lib'', uname_machine w]
         else bundled)"

text \<open>\<^verbatim>\<open>Context.__init__\<close>, in the order of its statements.\<close>

definition Context_init :: "world \<Rightarrow> ctx res" where
  "Context_init w =
     (let self0 = new_ctx w;
          labels_dir = labels_dir_of w self0
      in bind (get_package_config w self0) (\<lambda>cfg_dict.
         bind (lift (py_getitem cfg_dict ''environment_variables'')) (\<lambda>ev.
         let self1 = self0\<lparr>env_vars := ev\<rparr>
         in bind (get_package_layout w self1) (\<lambda>lcfg_dict.
         bind (lift (py_getitem lcfg_dict ''runtime'')) (\<lambda>rt.
         let self2 = self1\<lparr>pckg_layout := rt\<rparr>
         in bind (CheckerLabels w labels_dir) (\<lambda>labels.
         let self3 = self2\<lparr>checker_labels := labels,
                           logger_lib_dir_path := logger_lib_dir_of w self2\<rparr>
         in bind (init_env w self3) (\<lambda>self4.
         bind (set_version w self4) (\<lambda>self5.
         bind (populate_analyzers w self5) (\<lambda>self6.
         populate_replacer w self6)))))))))"

text \<open>
  \<^verbatim>\<open>get_context\<close> on the first access of the process, when \<^verbatim>\<open>Context()\<close> runs the
  constructor. A key error prints the traceback and exits; a value error is logged and
  exits; any other exception, and \<^verbatim>\<open>SystemExit\<close>, pass through.
\<close>

definition get_context :: "world \<Rightarrow> ctx res" where
  "get_context w =
     (case Context_init w of
        (Normal self, out) \<Rightarrow> (Normal self, out)
      | (Raise KeyError, out) \<Rightarrow> (Exit 1, out @ [PrintExc KeyError])
      | (Raise (ValueError m), out) \<Rightarrow> (Exit 1, out @ [Log ERROR (Text m)])
      | (Raise e, out) \<Rightarrow> (Raise e, out)
      | (Exit n, out) \<Rightarrow> (Exit n, out))"

subsection \<open>Notions used to state the properties\<close>

text \<open>The value a computation returned, if it returned.\<close>

definition result_of :: "'a res \<Rightarrow> 'a option" where
  "result_of r = (case fst r of Normal x \<Rightarrow> Some x | Raise e \<Rightarrow> None | Exit n \<Rightarrow> None)"

text \<open>A computation returned, and what it returned satisfies \<open>P\<close>.\<close>

definition returns_with :: "'a res \<Rightarrow> ('a \<Rightarrow> bool) \<Rightarrow> bool" where
  "returns_with r P = (case fst r of Normal x \<Rightarrow> P x | Raise e \<Rightarrow> False | Exit n \<Rightarrow> False)"

text \<open>
  An entry of \<^verbatim>\<open>CC_ANALYZER_BIN\<close> is good when it parses and its path is a file. A bad
  entry has one error message, a good one has one acceptance message and one
  assignment to the dict.
\<close>

definition entry_ok :: "world \<Rightarrow> string \<Rightarrow> bool" where
  "entry_ok w v =
     (case analyzer_binary w v of
        Inl e \<Rightarrow> False
      | Inr (analyzer_name, path) \<Rightarrow> os_path_isfile w path)"

definition entry_error :: "world \<Rightarrow> string \<Rightarrow> event" where
  "entry_error w v =
     (case analyzer_binary w v of
        Inl e \<Rightarrow> Log ERROR (Text e)
      | Inr (analyzer_name, path) \<Rightarrow> Log ERROR (Text (not_a_binary_msg path)))"

definition entry_using :: "world \<Rightarrow> string \<Rightarrow> event" where
  "entry_using w v =
     (case analyzer_binary w v of
        Inl e \<Rightarrow> Log INFO (Text [])
      | Inr (analyzer_name, path) \<Rightarrow> Log INFO (Text (using_msg path analyzer_name)))"

definition store_entry :: "world \<Rightarrow> string \<Rightarrow> (string \<rightharpoonup> string) \<Rightarrow> (string \<rightharpoonup> string)" where
  "store_entry w v m =
     (case analyzer_binary w v of
        Inl e \<Rightarrow> m
      | Inr (analyzer_name, path) \<Rightarrow> m(analyzer_name \<mapsto> path))"

text \<open>A field of the \<^verbatim>\<open>git_describe\<close> block of the version file, \<open>None\<close> when absent.\<close>

definition describe_field :: "json \<Rightarrow> string \<Rightarrow> json" where
  "describe_field vfile_data k =
     (case py_get vfile_data ''git_describe'' (JObj []) of
        Inl e \<Rightarrow> JNull
      | Inr d \<Rightarrow> (case py_get d k JNull of Inl e \<Rightarrow> JNull | Inr v \<Rightarrow> v))"

definition is_debug_event :: "event \<Rightarrow> bool" where
  "is_debug_event ev = (case ev of Log l m \<Rightarrow> l = DEBUG | PrintExc e \<Rightarrow> False)"

definition is_JStr :: "json \<Rightarrow> bool" where
  "is_JStr v = (case v of JStr s \<Rightarrow> True | _ \<Rightarrow> False)"

definition config_file :: "world \<Rightarrow> string" where
  "config_file w =
     os_path_join (environ_get_default w ''CC_DATA_FILES_DIR'' []) [''config'', ''config.json'']"

definition layout_file :: "world \<Rightarrow> string" where
  "layout_file w =
     os_path_join (environ_get_default w ''CC_DATA_FILES_DIR'' [])
       [''config'', ''package_layout.json'']"

subsection \<open>A concrete installation\<close>

text \<open>
  Modelled from the spec: \<^verbatim>\<open>codechecker_analyzer.arg.analyzer_binary\<close> is not among the
  sources. The spec gives the form of an entry as \<^verbatim>\<open><analyzer-name>:<path>\<close> and calls
  any other entry malformed; here the name ends at the first colon and both parts are
  non-empty. It is used for the concrete installation only: the general theorems hold
  for every \<open>analyzer_binary\<close>.
\<close>

definition analyzer_binary_spec :: "string \<Rightarrow> string + (string \<times> string)" where
  "analyzer_binary_spec arg =
     (let name = takeWhile (\<lambda>c. c \<noteq> CHR '':'') arg;
          rest = dropWhile (\<lambda>c. c \<noteq> CHR '':'') arg
      in if name = [] \<or> length rest < 2
         then Inl (''Analyzer binary in wrong format: '' @ arg)
         else Inr (name, tl rest))"

definition example_config :: json where
  "example_config =
     JObj [(''environment_variables'',
            JObj [(''cc_logger_bin'', JStr ''CC_LOGGER_BIN''),
                  (''cc_logger_file'', JStr ''CC_LOGGER_FILE''),
                  (''cc_logger_compiles'', JStr ''CC_LOGGER_GCC_LIKE''),
                  (''ld_preload'', JStr ''LD_PRELOAD''),
                  (''env_ld_lib_path'', JStr ''LD_LIBRARY_PATH'')])]"

definition example_analyzers :: "(string \<times> json) list" where
  "example_analyzers =
     [(''clangsa'', JStr ''clang''),
      (''clang-tidy'', JStr ''clang-tidy''),
      (''infer'', JStr ''tools/infer''),
      (''gcc'', JStr ''gcc'')]"

definition example_runtime :: json where
  "example_runtime =
     JObj [(''analyzers'', JObj example_analyzers),
           (''clang-apply-replacements'', JStr ''clang-apply-replacements''),
           (''path_env_extra'', JList [JStr ''bin'']),
           (''ld_lib_path_extra'', JList [JStr ''lib''])]"

definition example_layout :: json where
  "example_layout = JObj [(''runtime'', example_runtime)]"

definition example_version_object :: "(string \<times> json) list" where
  "example_version_object =
     [(''major'', JStr ''6''), (''minor'', JStr ''12''), (''revision'', JStr ''0'')]"

definition example_version_fields :: "(string \<times> json) list \<Rightarrow> (string \<times> json) list" where
  "example_version_fields version_object =
     [(''version'', JObj version_object),
      (''package_build_date'', JStr ''2023-01-01T00:00''),
      (''git_hash'', JStr ''0123abc''),
      (''git_describe'',
       JObj [(''tag'', JStr ''6.12.0''), (''dirty'', JStr ''6.12.0-tainted'')])]"

definition example_version_file :: "(string \<times> json) list \<Rightarrow> json" where
  "example_version_file version_object = JObj (example_version_fields version_object)"

definition example_files :: "(string \<times> json) list \<Rightarrow> string \<Rightarrow> json" where
  "example_files version_object file =
     (if file = ''/opt/cc/config/config.json'' then example_config
      else if file = ''/opt/cc/config/package_layout.json'' then example_layout
      else if file = ''/opt/cc/config/analyzer_version.json''
      then example_version_file version_object
      else JObj [])"

definition example_find_executable :: "string \<Rightarrow> string option \<Rightarrow> string option" where
  "example_find_executable name path =
     (if name = ''clang'' then Some ''/usr/bin/clang''
      else if name = ''gcc'' then Some ''/usr/bin/gcc''
      else if name = ''clang-apply-replacements''
      then Some ''/usr/bin/clang-apply-replacements''
      else None)"

definition example_realpath :: "string \<Rightarrow> string" where
  "example_realpath p =
     (if p = ''/usr/bin/gcc'' then ''/usr/lib/ccache/bin/ccache''
      else if p = ''/usr/bin/clang'' then ''/usr/lib/llvm/bin/clang''
      else if p = ''/usr/bin/clang-apply-replacements''
      then ''/usr/lib/llvm/bin/clang-apply-replacements''
      else p)"

text \<open>
  An installation under \<^verbatim>\<open>/opt/cc\<close>; its parameter is the environment that
  \<^verbatim>\<open>env.extend\<close> returns. Logging is at level 20 (\<^verbatim>\<open>INFO\<close>); \<^verbatim>\<open>DEBUG\<close> is 10 and
  \<^verbatim>\<open>DEBUG_ANALYZER\<close> is 15.
\<close>

definition example_world :: "(string \<times> string) list \<Rightarrow> world" where
  "example_world extended =
     \<lparr>os_environ = [''CC_DATA_FILES_DIR'' \<mapsto> ''/opt/cc''],
      os_path_exists = (\<lambda>p. False),
      os_path_isfile = (\<lambda>p. p = ''/usr/bin/clang''),
      os_path_realpath = example_realpath,
      find_executable = example_find_executable,
      uname_machine = ''x86_64'',
      load_json = example_files example_version_object,
      LOG_getEffectiveLevel = 20,
      logger_DEBUG = 10,
      logger_DEBUG_ANALYZER = 15,
      env_is_analyzer_from_path = False,
      env_extend = (\<lambda>path_env_extra ld_lib_path_extra. extended),
      analyzer_binary = analyzer_binary_spec,
      CheckerLabels = (\<lambda>labels_dir. ret labels_dir)\<rparr>"

definition plain_env :: "(string \<times> string) list" where
  "plain_env = [(''PATH'', ''/opt/cc/bin:/usr/bin'')]"

text \<open>The object as the constructor passes it to \<^verbatim>\<open>__populate_analyzers\<close>.\<close>

definition example_self :: ctx where
  "example_self = (new_ctx (example_world plain_env))\<lparr>pckg_layout := example_runtime\<rparr>"

text \<open>
  The same installation with \<^verbatim>\<open>CC_ANALYZER_BIN\<close> set to \<open>v\<close> in the extended
  environment, and the object that holds this environment in its cache.
\<close>

definition override_env :: "string \<Rightarrow> (string \<times> string) list" where
  "override_env v = [(''PATH'', ''/opt/cc/bin:/usr/bin''), (''CC_ANALYZER_BIN'', v)]"

definition override_self :: "string \<Rightarrow> ctx" where
  "override_self v = example_self\<lparr>priv_analyzer_env := Some (override_env v)\<rparr>"

text \<open>The installation with the logger at another level.\<close>

definition at_level :: "int \<Rightarrow> world" where
  "at_level l = (example_world plain_env)\<lparr>LOG_getEffectiveLevel := l\<rparr>"

text \<open>The installation with a release candidate in its version file.\<close>

definition rc_version_object :: "string \<Rightarrow> (string \<times> json) list" where
  "rc_version_object rc = example_version_object @ [(''rc'', JStr rc)]"

definition rc_world :: "string \<Rightarrow> world" where
  "rc_world rc = (example_world plain_env)\<lparr>load_json := example_files (rc_version_object rc)\<rparr>"

text \<open>The installation with the analyzers taken from \<^verbatim>\<open>PATH\<close>.\<close>

definition path_mode_world :: world where
  "path_mode_world = (example_world plain_env)\<lparr>env_is_analyzer_from_path := True\<rparr>"

text \<open>The object after \<^verbatim>\<open>__set_version\<close> has read the version file of the installation.\<close>

definition example_versioned :: "json \<Rightarrow> ctx" where
  "example_versioned tag =
     (new_ctx (example_world plain_env))
       \<lparr>priv_package_version := JStr ''6.12.0'',
        priv_package_build_date := JStr ''2023-01-01T00:00'',
        priv_package_git_hash := JStr ''0123abc'',
        priv_package_git_tag := tag\<rparr>"

text \<open>The installation with no file at all, and with the package layout missing.\<close>

definition no_files_world :: world where
  "no_files_world = (example_world plain_env)\<lparr>load_json := (\<lambda>f. JObj [])\<rparr>"

definition no_layout_world :: world where
  "no_layout_world =
     (example_world plain_env)
       \<lparr>load_json := (\<lambda>f. if f = ''/opt/cc/config/config.json'' then example_config
                            else JObj [])\<rparr>"

text \<open>What the constructor logs while it reads the two configuration files.\<close>

definition example_init_log :: "event list" where
  "example_init_log =
     [Log DEBUG (Text ''Reading config: /opt/cc/config/config.json''),
      Log DEBUG (Obj example_config),
      Log DEBUG (Text ''Reading config: /opt/cc/config/package_layout.json'')]"

text \<open>
  A missing file is reported: the constructor raises the value error that names the
  file, and \<open>get_context\<close> logs that message as an error and exits with status 1.
\<close>

definition reports_missing :: "world \<Rightarrow> string \<Rightarrow> bool" where
  "reports_missing w file =
     (fst (Context_init w) = Raise (ValueError (no_config_msg file)) \<and>
      get_context w = (Exit 1, snd (Context_init w) @ [Log ERROR (Text (no_config_msg file))]) \<and>
      is_substr file (no_config_msg file))"

text \<open>
  The object of the installation once the extended environment is cached, and once
  the analyzers are resolved: \<^verbatim>\<open>clang\<close> is found and made canonical,
  \<^verbatim>\<open>clang-tidy\<close> is not found, \<^verbatim>\<open>tools/infer\<close> is relative to the package, and
  \<^verbatim>\<open>gcc\<close> is a link to ccache.
\<close>

definition example_cached :: ctx where
  "example_cached = example_self\<lparr>priv_analyzer_env := Some plain_env\<rparr>"

definition example_resolved :: ctx where
  "example_resolved =
     example_cached
       \<lparr>priv_analyzers :=
          [''clangsa'' \<mapsto> ''/usr/lib/llvm/bin/clang'',
           ''infer'' \<mapsto> ''/opt/cc/tools/infer'',
           ''gcc'' \<mapsto> ''/usr/bin/gcc'']\<rparr>"

text \<open>The object that \<^verbatim>\<open>get_context\<close> returns for the installation.\<close>

definition example_context :: ctx where
  "example_context =
     \<lparr>bin_dir_path = [], lib_dir_path = [], data_files_dir_path = ''/opt/cc'',
      env_vars = JObj [(''cc_logger_bin'', JStr ''CC_LOGGER_BIN''),
                       (''cc_logger_file'', JStr ''CC_LOGGER_FILE''),
                       (''cc_logger_compiles'', JStr ''CC_LOGGER_GCC_LIKE''),
                       (''ld_preload'', JStr ''LD_PRELOAD''),
                       (''env_ld_lib_path'', JStr ''LD_LIBRARY_PATH'')],
      pckg_layout = example_runtime,
      checker_labels = ''/opt/cc/config/labels'',
      priv_package_version = JStr ''6.12.0'',
      priv_package_build_date = JStr ''2023-01-01T00:00'',
      priv_package_git_hash = JStr ''0123abc'',
      priv_package_git_tag = JStr ''6.12.0'',
      priv_analyzers = [''clangsa'' \<mapsto> ''/usr/lib/llvm/bin/clang'',
                        ''infer'' \<mapsto> ''/opt/cc/tools/infer'',
                        ''gcc'' \<mapsto> ''/usr/bin/gcc''],
      priv_analyzer_env = Some plain_env,
      logger_lib_dir_path = ''codechecker_analyzer/ld_logger/lib/x86_64'',
      logger_bin = None, logger_file = None, logger_compilers = None,
      ld_preload = None, ld_lib_path = JStr ''LD_LIBRARY_PATH'',
      priv_replacer = Some ''/usr/bin/clang-apply-replacements''\<rparr>"

section \<open>Properties\<close>

subsection \<open>Sequencing\<close>

lemma bind_ret [simp]: "bind (ret x) f = f x"
  by (cases "f x") (simp add: bind_def ret_def)

lemma bind_raise [simp]: "bind (raise e) f = raise e"
  by (simp add: bind_def raise_def)

lemma bind_sys_exit [simp]: "bind (sys_exit n) f = sys_exit n"
  by (simp add: bind_def sys_exit_def)

lemma bind_Normal [simp]:
  "bind (Normal x, out) f = (case f x of (r, out') \<Rightarrow> (r, out @ out'))"
  by (simp add: bind_def)

lemma bind_Raise [simp]: "bind (Raise e, out) f = (Raise e, out)"
  by (simp add: bind_def)

lemma bind_Exit [simp]: "bind (Exit n, out) f = (Exit n, out)"
  by (simp add: bind_def)

lemma lift_Inr [simp]: "lift (Inr v) = ret v"
  by (simp add: lift_def)

lemma lift_Inl [simp]: "lift (Inl e) = raise e"
  by (simp add: lift_def)

lemma sys_exit_not_Normal [simp]: "sys_exit n \<noteq> (Normal y, out)"
  by (simp add: sys_exit_def)

lemma raise_not_Normal [simp]: "raise e \<noteq> (Normal y, out)"
  by (simp add: raise_def)

lemma bind_Normal_iff:
  "bind r f = (Normal y, out) \<longleftrightarrow>
     (\<exists>x o1 o2. r = (Normal x, o1) \<and> f x = (Normal y, o2) \<and> out = o1 @ o2)"
  by (cases r; cases "fst r") (auto simp: bind_def split: prod.splits)

lemma bind_lift_Normal:
  "bind (lift x) f = (Normal y, out) \<longleftrightarrow> (\<exists>v. x = Inr v \<and> f v = (Normal y, out))"
  by (cases x) simp_all

lemma bind_then_ret_Normal:
  "bind r (\<lambda>v. ret (g v)) = (Normal y, out) \<longleftrightarrow> (\<exists>v. r = (Normal v, out) \<and> y = g v)"
  by (cases r; cases "fst r") (auto simp: bind_def ret_def)

lemma py_add_str [simp]: "py_add (JStr a) (JStr b) = Inr (JStr (a @ b))"
  by (simp add: py_add_def)

lemma ret_Normal_iff: "ret x = (Normal y, out) \<longleftrightarrow> y = x \<and> out = []"
  by (auto simp: ret_def)

lemmas run_defs = ret_def raise_def sys_exit_def LOG_def

lemmas init_defs =
  Context_init_def get_package_config_def get_package_layout_def labels_dir_of_def
  logger_lib_dir_of_def init_env_def env_var_lookup_def environ_get_def set_version_def
  version_string_def rc_suffix_def

lemmas example_defs =
  example_world_def example_files_def example_version_file_def example_version_fields_def
  example_version_object_def example_config_def example_layout_def example_runtime_def
  example_analyzers_def plain_env_def new_ctx_def environ_get_default_def version_file_def
  os_path_join_def join2_def

subsection \<open>Parsing \<^verbatim>\<open>CC_ANALYZER_BIN\<close>\<close>

lemma parse_entries_bad:
  "\<not> entry_ok w v \<Longrightarrow>
   parse_entries w (v # es) (h, m, out) = parse_entries w es (True, m, out @ [entry_error w v])"
  by (auto simp: entry_ok_def entry_error_def split: sum.splits prod.splits)

lemma parse_entries_skip:
  "entry_ok w v \<Longrightarrow>
   parse_entries w (v # es) (True, m, out) = parse_entries w es (True, m, out)"
  by (auto simp: entry_ok_def split: sum.splits prod.splits)

lemma parse_entries_accept:
  "entry_ok w v \<Longrightarrow>
   parse_entries w (v # es) (False, m, out) =
     parse_entries w es (False, store_entry w v m, out @ [entry_using w v])"
  by (auto simp: entry_ok_def entry_using_def store_entry_def split: sum.splits prod.splits)

text \<open>Once the flag is set it stays set: bad entries are reported, good ones ignored.\<close>

lemma parse_entries_failed:
  "parse_entries w es (True, m, out) =
     (True, m, out @ map (entry_error w) (filter (\<lambda>v. \<not> entry_ok w v) es))"
proof (induction es arbitrary: out)
  case Nil
  show ?case by simp
next
  case (Cons v es)
  show ?case
  proof (cases "entry_ok w v")
    case True
    then show ?thesis
      by (simp add: parse_entries_skip [OF True] Cons.IH del: parse_entries.simps)
  next
    case False
    then show ?thesis
      by (simp add: parse_entries_bad [OF False] Cons.IH del: parse_entries.simps)
  qed
qed

lemma parse_entries_run:
  "parse_entries w es (False, m, out) =
     (\<not> list_all (entry_ok w) es,
      fold (store_entry w) (takeWhile (entry_ok w) es) m,
      out @ map (entry_using w) (takeWhile (entry_ok w) es)
          @ map (entry_error w) (filter (\<lambda>v. \<not> entry_ok w v) es))"
proof (induction es arbitrary: m out)
  case Nil
  show ?case by simp
next
  case (Cons v es)
  show ?case
  proof (cases "entry_ok w v")
    case True
    then show ?thesis
      by (simp add: parse_entries_accept [OF True] Cons.IH del: parse_entries.simps)
  next
    case False
    then show ?thesis
      by (simp add: parse_entries_bad [OF False] parse_entries_failed
            del: parse_entries.simps)
  qed
qed

lemma all_ok_no_failed:
  "list_all (entry_ok w) xs \<Longrightarrow> filter (\<lambda>v. \<not> entry_ok w v) xs = []"
  by (induction xs) simp_all

lemma all_ok_takeWhile:
  "list_all (entry_ok w) xs \<Longrightarrow> takeWhile (entry_ok w) xs = xs"
  by (induction xs) simp_all

text \<open>
  Claim C1, as the code has it. When \<^verbatim>\<open>CC_ANALYZER_BIN\<close> is set, every entry of its
  value is parsed and checked, and every bad entry (malformed, or not the path of a
  file) is logged as an error, once, in order. An entry is accepted (announced at info
  level and stored) only when it is good and no entry before it was bad: the accepted
  entries are the longest prefix of good entries. If all entries are good the dict of
  all of them is returned; otherwise the usage hint is logged last and the process
  exits with status 1.
\<close>

theorem parse_CC_ANALYZER_BIN_entries:
  assumes "priv_analyzer_env self = Some e"
    and "map_of e ''CC_ANALYZER_BIN'' = Some val"
  shows "parse_CC_ANALYZER_BIN w self =
     (if list_all (entry_ok w) (split_on (CHR '';'') val)
      then (Normal (fold (store_entry w) (split_on (CHR '';'') val) Map.empty),
            map (entry_using w) (split_on (CHR '';'') val))
      else (Exit 1,
            map (entry_using w) (takeWhile (entry_ok w) (split_on (CHR '';'') val))
            @ map (entry_error w) (filter (\<lambda>v. \<not> entry_ok w v) (split_on (CHR '';'') val))
            @ [Log INFO (Text usage_hint)]))"
proof (cases "list_all (entry_ok w) (split_on (CHR '';'') val)")
  case True
  show ?thesis
    using assms True
    by (simp add: parse_CC_ANALYZER_BIN_def parse_entries_run
          all_ok_no_failed [OF True] all_ok_takeWhile [OF True])
next
  case False
  show ?thesis
    using assms False
    by (simp add: parse_CC_ANALYZER_BIN_def parse_entries_run)
qed

text \<open>
  The example of the claim: \<^verbatim>\<open>clang:/usr/bin/clang;cppcheck:/bad/path\<close>, where
  \<^verbatim>\<open>/usr/bin/clang\<close> is a file and \<^verbatim>\<open>/bad/path\<close> is not. The first entry is accepted,
  one error is logged for the second, then the hint, and the process exits.
\<close>

theorem parse_CC_ANALYZER_BIN_entries_witness:
  "priv_analyzer_env (override_self ''clang:/usr/bin/clang;cppcheck:/bad/path'')
     = Some (override_env ''clang:/usr/bin/clang;cppcheck:/bad/path'') \<and>
   map_of (override_env ''clang:/usr/bin/clang;cppcheck:/bad/path'') ''CC_ANALYZER_BIN''
     = Some ''clang:/usr/bin/clang;cppcheck:/bad/path'' \<and>
   parse_CC_ANALYZER_BIN (example_world plain_env)
       (override_self ''clang:/usr/bin/clang;cppcheck:/bad/path'') =
     (Exit 1,
      [Log INFO (Text (using_msg ''/usr/bin/clang'' ''clang'')),
       Log ERROR (Text (not_a_binary_msg ''/bad/path'')),
       Log INFO (Text usage_hint)])"
proof -
  have a: "priv_analyzer_env (override_self ''clang:/usr/bin/clang;cppcheck:/bad/path'')
             = Some (override_env ''clang:/usr/bin/clang;cppcheck:/bad/path'')"
    by (simp add: override_self_def)
  have b: "map_of (override_env ''clang:/usr/bin/clang;cppcheck:/bad/path'')
             ''CC_ANALYZER_BIN'' = Some ''clang:/usr/bin/clang;cppcheck:/bad/path''"
    by (simp add: override_env_def)
  show ?thesis
    using a b parse_CC_ANALYZER_BIN_entries [OF a b, of "example_world plain_env"]
    by (simp add: entry_ok_def entry_using_def entry_error_def example_world_def
          analyzer_binary_spec_def Let_def)
qed

text \<open>
  Against claim C1 as stated (a later entry is accepted on its own merits after a bad
  one): in \<^verbatim>\<open>cppcheck:/bad/path;clang:/usr/bin/clang\<close> the second entry is good, and
  yet it is neither announced nor stored; the output is the one error and the hint.
\<close>

theorem later_entry_not_accepted_counterexample:
  "entry_ok (example_world plain_env) ''clang:/usr/bin/clang'' \<and>
   parse_CC_ANALYZER_BIN (example_world plain_env)
      (override_self ''cppcheck:/bad/path;clang:/usr/bin/clang'') =
     (Exit 1, [Log ERROR (Text (not_a_binary_msg ''/bad/path'')), Log INFO (Text usage_hint)]) \<and>
   entry_using (example_world plain_env) ''clang:/usr/bin/clang''
     \<notin> set (snd (parse_CC_ANALYZER_BIN (example_world plain_env)
                   (override_self ''cppcheck:/bad/path;clang:/usr/bin/clang'')))"
  by (simp add: parse_CC_ANALYZER_BIN_def override_self_def override_env_def
        entry_ok_def entry_using_def example_world_def analyzer_binary_spec_def Let_def
        using_msg_def usage_hint_def)

subsection \<open>The version and the git tag\<close>

lemma example_set_version:
  "set_version (at_level l) (new_ctx (at_level l)) =
     (Normal (example_versioned (if l = 10 \<or> l = 15 then JStr ''6.12.0-tainted''
                                 else JStr ''6.12.0'')), [])"
  by (simp add: at_level_def example_versioned_def set_version_def version_string_def
        rc_suffix_def run_defs example_defs)

text \<open>
  Claim C3, as the code has it. After version resolution the visible git tag is the
  \<^verbatim>\<open>dirty\<close> field of the \<^verbatim>\<open>git_describe\<close> block exactly when the effective log level
  equals \<^verbatim>\<open>DEBUG\<close> or equals \<^verbatim>\<open>DEBUG_ANALYZER\<close>; at every other level, lower ones
  included, it is the \<^verbatim>\<open>tag\<close> field.
\<close>

theorem git_tag_by_level:
  assumes "set_version w self = (Normal self', out)"
  shows "package_git_tag self' =
     (if LOG_getEffectiveLevel w = logger_DEBUG w \<or>
         LOG_getEffectiveLevel w = logger_DEBUG_ANALYZER w
      then describe_field (load_json w (version_file self)) ''dirty''
      else describe_field (load_json w (version_file self)) ''tag'')"
proof (cases "truthy (load_json w (version_file self))")
  case False
  with assms show ?thesis
    by (simp add: set_version_def)
next
  case True
  with assms show ?thesis
    apply (simp only: set_version_def Let_def simp_thms if_False bind_lift_Normal
             bind_then_ret_Normal)
    apply (elim exE conjE)
    apply (simp add: describe_field_def package_git_tag_def)
    done
qed

text \<open>At level 15 (\<^verbatim>\<open>DEBUG_ANALYZER\<close>) the installation shows its dirty tag.\<close>

theorem git_tag_by_level_witness:
  "set_version (at_level 15) (new_ctx (at_level 15)) =
     (Normal (example_versioned (JStr ''6.12.0-tainted'')), []) \<and>
   package_git_tag (example_versioned (JStr ''6.12.0-tainted'')) = JStr ''6.12.0-tainted''"
proof -
  have a: "set_version (at_level 15) (new_ctx (at_level 15)) =
     (Normal (example_versioned (JStr ''6.12.0-tainted'')), [])"
    by (simp add: example_set_version)
  show ?thesis
    using a git_tag_by_level [OF a]
    by (simp add: at_level_def describe_field_def example_defs)
qed

text \<open>
  Against claim C3 as stated (the dirty tag at every verbosity at or below the debug
  threshold): with \<^verbatim>\<open>DEBUG\<close> = 10 and \<^verbatim>\<open>DEBUG_ANALYZER\<close> = 15, a logger at level 5 is
  below both, and the visible tag is the clean one.
\<close>

theorem low_level_clean_tag_counterexample:
  "LOG_getEffectiveLevel (at_level 5) \<le> logger_DEBUG (at_level 5) \<and>
   LOG_getEffectiveLevel (at_level 5) \<le> logger_DEBUG_ANALYZER (at_level 5) \<and>
   set_version (at_level 5) (new_ctx (at_level 5)) =
     (Normal (example_versioned (JStr ''6.12.0'')), []) \<and>
   package_git_tag (example_versioned (JStr ''6.12.0'')) = JStr ''6.12.0'' \<and>
   describe_field (load_json (at_level 5) (version_file (new_ctx (at_level 5)))) ''dirty''
     = JStr ''6.12.0-tainted''"
  by (simp add: example_set_version)
     (simp add: at_level_def describe_field_def example_versioned_def package_git_tag_def
        example_defs)

text \<open>
  Claim C8. For a version file whose \<^verbatim>\<open>version\<close> object holds the strings \<^verbatim>\<open>major\<close>,
  \<^verbatim>\<open>minor\<close> and \<^verbatim>\<open>revision\<close>, and an \<^verbatim>\<open>rc\<close> string or none, version resolution
  returns and the \<^verbatim>\<open>version\<close> accessor is exactly major, a dot, minor, a dot, revision,
  followed by \<^verbatim>\<open>-rc\<close> and the rc value if and only if there is an rc field and it is
  not empty. (The file must also hold a build date, which the method reads first, and
  its \<^verbatim>\<open>git_describe\<close> block, if any, must be an object.)
\<close>

theorem version_of_version_file:
  assumes "load_json w (version_file self) = JObj vf"
    and "map_of vf ''version'' = Some (JObj pv)"
    and "map_of vf ''package_build_date'' = Some bd"
    and "map_of vf ''git_describe'' = map_option JObj gd"
    and "map_of pv ''major'' = Some (JStr major)"
    and "map_of pv ''minor'' = Some (JStr minor)"
    and "map_of pv ''revision'' = Some (JStr revision)"
    and "map_of pv ''rc'' = map_option JStr rc"
  shows "map_option version (result_of (set_version w self)) =
     Some (JStr (major @ ''.'' @ minor @ ''.'' @ revision @
                 (case rc of None \<Rightarrow> [] | Some r \<Rightarrow> if r = [] then [] else ''-rc'' @ r)))"
proof -
  from assms(2) have ne: "vf \<noteq> []"
    by auto
  have "\<exists>d. py_get (JObj vf) ''git_describe'' (JObj []) = Inr (JObj d)"
    using assms(4) by (cases gd) simp_all
  then obtain d where d: "py_get (JObj vf) ''git_describe'' (JObj []) = Inr (JObj d)" ..
  have sfx: "rc_suffix (JObj pv) =
     ret (JStr (case rc of None \<Rightarrow> [] | Some r \<Rightarrow> if r = [] then [] else ''-rc'' @ r))"
    using assms(8) by (cases rc) (simp_all add: rc_suffix_def)
  have vs: "version_string (JObj pv) =
     ret (JStr (major @ ''.'' @ minor @ ''.'' @ revision @
                 (case rc of None \<Rightarrow> [] | Some r \<Rightarrow> if r = [] then [] else ''-rc'' @ r)))"
    using assms(5-7) by (simp add: version_string_def sfx)
  show ?thesis
    using assms(1-3) ne d
    by (simp add: set_version_def vs result_of_def version_def run_defs
          split: option.split)
qed

text \<open>
  The two examples of the claim: 6, 12, 0 with the release candidate 1 gives
  \<^verbatim>\<open>6.12.0-rc1\<close>, and without a release candidate \<^verbatim>\<open>6.12.0\<close>.
\<close>

theorem version_of_version_file_witness:
  "load_json (rc_world ''1'') (version_file (new_ctx (rc_world ''1'')))
     = JObj (example_version_fields (rc_version_object ''1'')) \<and>
   map_of (example_version_fields (rc_version_object ''1'')) ''version''
     = Some (JObj (rc_version_object ''1'')) \<and>
   map_of (example_version_fields (rc_version_object ''1'')) ''package_build_date''
     = Some (JStr ''2023-01-01T00:00'') \<and>
   map_of (example_version_fields (rc_version_object ''1'')) ''git_describe''
     = map_option JObj (Some [(''tag'', JStr ''6.12.0''), (''dirty'', JStr ''6.12.0-tainted'')]) \<and>
   map_of (rc_version_object ''1'') ''major'' = Some (JStr ''6'') \<and>
   map_of (rc_version_object ''1'') ''minor'' = Some (JStr ''12'') \<and>
   map_of (rc_version_object ''1'') ''revision'' = Some (JStr ''0'') \<and>
   map_of (rc_version_object ''1'') ''rc'' = map_option JStr (Some ''1'') \<and>
   map_option version (result_of (set_version (rc_world ''1'') (new_ctx (rc_world ''1''))))
     = Some (JStr ''6.12.0-rc1'') \<and>
   map_option version (result_of (set_version (at_level 20) (new_ctx (at_level 20))))
     = Some (JStr ''6.12.0'')"
proof -
  have a: "load_json (rc_world ''1'') (version_file (new_ctx (rc_world ''1'')))
     = JObj (example_version_fields (rc_version_object ''1''))"
    by (simp add: rc_world_def example_defs)
  have b: "map_of (example_version_fields (rc_version_object ''1'')) ''version''
     = Some (JObj (rc_version_object ''1''))"
    by (simp add: example_version_fields_def)
  have c: "map_of (example_version_fields (rc_version_object ''1'')) ''package_build_date''
     = Some (JStr ''2023-01-01T00:00'')"
    by (simp add: example_version_fields_def)
  have d: "map_of (example_version_fields (rc_version_object ''1'')) ''git_describe''
     = map_option JObj (Some [(''tag'', JStr ''6.12.0''), (''dirty'', JStr ''6.12.0-tainted'')])"
    by (simp add: example_version_fields_def)
  have e: "map_of (rc_version_object ''1'') ''major'' = Some (JStr ''6'')"
    by (simp add: rc_version_object_def example_version_object_def)
  have f: "map_of (rc_version_object ''1'') ''minor'' = Some (JStr ''12'')"
    by (simp add: rc_version_object_def example_version_object_def)
  have g: "map_of (rc_version_object ''1'') ''revision'' = Some (JStr ''0'')"
    by (simp add: rc_version_object_def example_version_object_def)
  have h: "map_of (rc_version_object ''1'') ''rc'' = map_option JStr (Some ''1'')"
    by (simp add: rc_version_object_def example_version_object_def)
  have i: "map_option version (result_of (set_version (at_level 20) (new_ctx (at_level 20))))
     = Some (JStr ''6.12.0'')"
    by (simp add: example_set_version result_of_def version_def example_versioned_def)
  show ?thesis
    using a b c d e f g h i version_of_version_file [OF a b c d e f g h]
    by simp
qed

subsection \<open>The extra search paths\<close>

text \<open>
  Claim C7. Whenever the analyzers are taken from \<^verbatim>\<open>PATH\<close>, the accessors
  \<^verbatim>\<open>path_env_extra\<close> and \<^verbatim>\<open>ld_lib_path_extra\<close> both return the empty list, whatever the
  package layout of the object holds; nothing is logged and nothing is raised.
\<close>

theorem extra_paths_empty_in_path_mode:
  assumes "env_is_analyzer_from_path w"
  shows "path_env_extra w self = (Normal [], []) \<and> ld_lib_path_extra w self = (Normal [], [])"
  using assms by (simp add: path_env_extra_def ld_lib_path_extra_def ret_def)

text \<open>
  The layout of the installation names the fragments \<^verbatim>\<open>bin\<close> and \<^verbatim>\<open>lib\<close>: they are
  returned in package mode and withheld in \<^verbatim>\<open>PATH\<close> mode.
\<close>

theorem extra_paths_empty_in_path_mode_witness:
  "env_is_analyzer_from_path path_mode_world \<and>
   path_env_extra path_mode_world example_self = (Normal [], []) \<and>
   ld_lib_path_extra path_mode_world example_self = (Normal [], []) \<and>
   path_env_extra (example_world plain_env) example_self = (Normal [''/opt/cc/bin''], []) \<and>
   ld_lib_path_extra (example_world plain_env) example_self = (Normal [''/opt/cc/lib''], [])"
proof -
  have a: "env_is_analyzer_from_path path_mode_world"
    by (simp add: path_mode_world_def)
  have b: "path_env_extra (example_world plain_env) example_self = (Normal [''/opt/cc/bin''], [])"
    by (simp add: path_env_extra_def extra_paths_of_def example_self_def run_defs example_defs)
  have c: "ld_lib_path_extra (example_world plain_env) example_self
             = (Normal [''/opt/cc/lib''], [])"
    by (simp add: ld_lib_path_extra_def extra_paths_of_def example_self_def run_defs
          example_defs)
  show ?thesis
    using a b c extra_paths_empty_in_path_mode [OF a, of example_self]
    by simp
qed

subsection \<open>Construction in \<^verbatim>\<open>PATH\<close> mode\<close>

lemma init_env_keeps:
  assumes "init_env w self = (Normal self', out)"
  shows "priv_analyzer_env self' = priv_analyzer_env self"
  using assms
  apply (simp only: init_env_def bind_Normal_iff bind_lift_Normal ret_Normal_iff)
  apply (elim exE conjE)
  apply simp
  done

lemma set_version_keeps:
  assumes "set_version w self = (Normal self', out)"
  shows "priv_analyzer_env self' = priv_analyzer_env self"
proof (cases "truthy (load_json w (version_file self))")
  case False
  with assms show ?thesis
    by (simp add: set_version_def)
next
  case True
  with assms show ?thesis
    apply (simp only: set_version_def Let_def simp_thms if_False bind_lift_Normal
             bind_then_ret_Normal)
    apply (elim exE conjE)
    apply simp
    done
qed

lemma populate_analyzers_path_mode:
  assumes "env_is_analyzer_from_path w" and "priv_analyzer_env self = None"
  shows "populate_analyzers w self = (Raise TypeError, [])"
  using assms
  by (simp add: populate_analyzers_def parse_CC_ANALYZER_BIN_def run_defs)

text \<open>
  The cache is empty when the constructor reaches \<^verbatim>\<open>__populate_analyzers\<close>, so in
  \<^verbatim>\<open>PATH\<close> mode the constructor cannot return.
\<close>

lemma Context_init_path_mode:
  assumes "env_is_analyzer_from_path w"
  shows "Context_init w \<noteq> (Normal self, out)"
proof
  assume "Context_init w = (Normal self, out)"
  then show False
    apply (simp only: Context_init_def Let_def bind_Normal_iff bind_lift_Normal)
    apply (elim exE conjE)
    apply (frule init_env_keeps)
    apply (frule set_version_keeps)
    apply (simp add: populate_analyzers_path_mode [OF assms] new_ctx_def)
    done
qed

lemma path_mode_example:
  "Context_init path_mode_world = (Raise TypeError, example_init_log)"
  by (simp add: path_mode_world_def example_init_log_def init_defs populate_analyzers_def
        parse_CC_ANALYZER_BIN_def run_defs example_defs Let_def)

text \<open>
  Claim C2. In every environment where the analyzers are taken from \<^verbatim>\<open>PATH\<close>, the
  constructor does not return an object, and neither does \<^verbatim>\<open>get_context\<close>. The
  mechanism: \<^verbatim>\<open>__populate_analyzers\<close> does not touch the cache, so for an object whose
  cached environment is \<open>None\<close> (as the constructor leaves it) the membership test of
  \<^verbatim>\<open>__parse_CC_ANALYZER_BIN\<close> raises a type error, which is the outcome of
  \<^verbatim>\<open>__populate_analyzers\<close>; and \<^verbatim>\<open>get_context\<close> hands a type error on as it is,
  without a log entry and without an exit.
\<close>

theorem path_mode_construction_fails:
  assumes "env_is_analyzer_from_path w"
  shows "result_of (Context_init w) = None \<and>
         result_of (get_context w) = None \<and>
         (priv_analyzer_env self = None \<longrightarrow>
            parse_CC_ANALYZER_BIN w self = (Raise TypeError, []) \<and>
            populate_analyzers w self = (Raise TypeError, [])) \<and>
         (fst (Context_init w) = Raise TypeError \<longrightarrow> get_context w = Context_init w)"
proof -
  have a: "result_of (Context_init w) = None"
    using Context_init_path_mode [OF assms]
    by (cases "Context_init w"; cases "fst (Context_init w)") (auto simp: result_of_def)
  have b: "result_of (get_context w) = None"
    using a
    by (cases "Context_init w"; cases "fst (Context_init w)")
       (auto simp: result_of_def get_context_def split: exc.splits)
  have c: "fst (Context_init w) = Raise TypeError \<longrightarrow> get_context w = Context_init w"
    by (cases "Context_init w") (auto simp: get_context_def)
  show ?thesis
    using a b c populate_analyzers_path_mode [OF assms]
    by (simp add: parse_CC_ANALYZER_BIN_def run_defs)
qed

text \<open>
  The installation in \<^verbatim>\<open>PATH\<close> mode: both configuration files and the version file
  are read, then the type error ends the constructor and leaves \<^verbatim>\<open>get_context\<close>.
\<close>

theorem path_mode_construction_fails_witness:
  "env_is_analyzer_from_path path_mode_world \<and>
   priv_analyzer_env example_self = None \<and>
   fst (Context_init path_mode_world) = Raise TypeError \<and>
   result_of (Context_init path_mode_world) = None \<and>
   result_of (get_context path_mode_world) = None \<and>
   parse_CC_ANALYZER_BIN path_mode_world example_self = (Raise TypeError, []) \<and>
   populate_analyzers path_mode_world example_self = (Raise TypeError, []) \<and>
   get_context path_mode_world = (Raise TypeError, example_init_log)"
proof -
  have a: "env_is_analyzer_from_path path_mode_world"
    by (simp add: path_mode_world_def)
  have b: "priv_analyzer_env example_self = None"
    by (simp add: example_self_def new_ctx_def)
  have c: "fst (Context_init path_mode_world) = Raise TypeError"
    by (simp add: path_mode_example)
  show ?thesis
    using a b c path_mode_construction_fails [OF a, of example_self]
    by (simp add: path_mode_example)
qed

subsection \<open>Missing configuration files\<close>

lemma is_substr_self: "is_substr n (n @ b)"
proof (cases "n @ b")
  case Nil
  then show ?thesis by simp
next
  case (Cons a l)
  have "take (length n) (a # l) = n"
    unfolding Cons [symmetric] by simp
  then show ?thesis
    unfolding Cons by simp
qed

lemma is_substr_append: "is_substr n (a @ n @ b)"
  by (induction a) (simp_all add: is_substr_self)

lemma no_config_msg_names_file: "is_substr f (no_config_msg f)"
  unfolding no_config_msg_def
  using is_substr_append [where n = f and a = "''No configuration file '' @ quote"]
  by simp

lemma get_package_config_missing:
  "\<not> truthy (load_json w (os_path_join (data_files_dir_path self) [''config'', ''config.json''])) \<Longrightarrow>
   get_package_config w self =
     (Raise (ValueError (no_config_msg
               (os_path_join (data_files_dir_path self) [''config'', ''config.json'']))),
      [Log DEBUG (Text (''Reading config: '' @
               os_path_join (data_files_dir_path self) [''config'', ''config.json'']))])"
  by (simp add: get_package_config_def Let_def run_defs)

lemma get_package_config_loaded:
  "truthy (load_json w (os_path_join (data_files_dir_path self) [''config'', ''config.json''])) \<Longrightarrow>
   get_package_config w self =
     (Normal (load_json w (os_path_join (data_files_dir_path self) [''config'', ''config.json''])),
      [Log DEBUG (Text (''Reading config: '' @
               os_path_join (data_files_dir_path self) [''config'', ''config.json''])),
       Log DEBUG (Obj (load_json w
               (os_path_join (data_files_dir_path self) [''config'', ''config.json''])))])"
  by (simp add: get_package_config_def Let_def run_defs)

lemma get_package_layout_missing:
  "\<not> truthy (load_json w
        (os_path_join (data_files_dir_path self) [''config'', ''package_layout.json''])) \<Longrightarrow>
   get_package_layout w self =
     (Raise (ValueError (no_config_msg
               (os_path_join (data_files_dir_path self) [''config'', ''package_layout.json'']))),
      [Log DEBUG (Text (''Reading config: '' @
               os_path_join (data_files_dir_path self) [''config'', ''package_layout.json'']))])"
  by (simp add: get_package_layout_def Let_def run_defs)

lemma data_dir_new_ctx:
  "data_files_dir_path (new_ctx w) = environ_get_default w ''CC_DATA_FILES_DIR'' []"
  by (simp add: new_ctx_def)

text \<open>
  Claim C9. If the general configuration file is missing or loads empty, the
  constructor raises the value error whose message names that file, and
  \<^verbatim>\<open>get_context\<close> logs the message as an error and exits with status 1, so that no
  object is returned. The same holds for the package layout file, which the
  constructor reads once the general configuration has been loaded and its
  \<^verbatim>\<open>environment_variables\<close> entry taken.
\<close>

theorem missing_configuration_is_fatal:
  "(\<not> truthy (load_json w (config_file w)) \<longrightarrow>
      reports_missing w (config_file w) \<and> result_of (get_context w) = None) \<and>
   (truthy (load_json w (config_file w)) \<and>
    py_getitem (load_json w (config_file w)) ''environment_variables'' = Inr ev \<and>
    \<not> truthy (load_json w (layout_file w)) \<longrightarrow>
      reports_missing w (layout_file w) \<and> result_of (get_context w) = None)"
proof (intro conjI impI)
  assume "\<not> truthy (load_json w (config_file w))"
  then have "Context_init w =
     (Raise (ValueError (no_config_msg (config_file w))),
      [Log DEBUG (Text (''Reading config: '' @ config_file w))])"
    by (simp add: Context_init_def Let_def config_file_def get_package_config_missing
          data_dir_new_ctx)
  then show "reports_missing w (config_file w)" and "result_of (get_context w) = None"
    by (simp_all add: reports_missing_def get_context_def no_config_msg_names_file
          result_of_def)
next
  assume "truthy (load_json w (config_file w)) \<and>
          py_getitem (load_json w (config_file w)) ''environment_variables'' = Inr ev \<and>
          \<not> truthy (load_json w (layout_file w))"
  then have "Context_init w =
     (Raise (ValueError (no_config_msg (layout_file w))),
      [Log DEBUG (Text (''Reading config: '' @ config_file w)),
       Log DEBUG (Obj (load_json w (config_file w))),
       Log DEBUG (Text (''Reading config: '' @ layout_file w))])"
    by (simp add: Context_init_def Let_def config_file_def layout_file_def
          get_package_config_loaded get_package_layout_missing data_dir_new_ctx)
  then show "reports_missing w (layout_file w)" and "result_of (get_context w) = None"
    by (simp_all add: reports_missing_def get_context_def no_config_msg_names_file
          result_of_def)
qed

text \<open>
  The installation without any file reports its \<^verbatim>\<open>config.json\<close>; with that file in
  place and no layout it reports its \<^verbatim>\<open>package_layout.json\<close>.
\<close>

theorem missing_configuration_is_fatal_witness:
  "\<not> truthy (load_json no_files_world (config_file no_files_world)) \<and>
   reports_missing no_files_world (config_file no_files_world) \<and>
   result_of (get_context no_files_world) = None \<and>
   config_file no_files_world = ''/opt/cc/config/config.json'' \<and>
   truthy (load_json no_layout_world (config_file no_layout_world)) \<and>
   py_getitem (load_json no_layout_world (config_file no_layout_world))
     ''environment_variables'' = py_getitem example_config ''environment_variables'' \<and>
   \<not> truthy (load_json no_layout_world (layout_file no_layout_world)) \<and>
   reports_missing no_layout_world (layout_file no_layout_world) \<and>
   result_of (get_context no_layout_world) = None \<and>
   layout_file no_layout_world = ''/opt/cc/config/package_layout.json''"
proof -
  have a: "\<not> truthy (load_json no_files_world (config_file no_files_world))"
    by (simp add: no_files_world_def)
  have b: "truthy (load_json no_layout_world (config_file no_layout_world))"
    by (simp add: no_layout_world_def config_file_def example_defs)
  have c: "py_getitem (load_json no_layout_world (config_file no_layout_world))
             ''environment_variables'' = Inr (JObj
                  [(''cc_logger_bin'', JStr ''CC_LOGGER_BIN''),
                   (''cc_logger_file'', JStr ''CC_LOGGER_FILE''),
                   (''cc_logger_compiles'', JStr ''CC_LOGGER_GCC_LIKE''),
                   (''ld_preload'', JStr ''LD_PRELOAD''),
                   (''env_ld_lib_path'', JStr ''LD_LIBRARY_PATH'')])"
    by (simp add: no_layout_world_def config_file_def example_defs)
  have d: "\<not> truthy (load_json no_layout_world (layout_file no_layout_world))"
    by (simp add: no_layout_world_def layout_file_def example_defs)
  have e: "config_file no_files_world = ''/opt/cc/config/config.json''"
    by (simp add: no_files_world_def config_file_def example_defs)
  have f: "layout_file no_layout_world = ''/opt/cc/config/package_layout.json''"
    by (simp add: no_layout_world_def layout_file_def example_defs)
  have g: "py_getitem example_config ''environment_variables'' = Inr (JObj
                  [(''cc_logger_bin'', JStr ''CC_LOGGER_BIN''),
                   (''cc_logger_file'', JStr ''CC_LOGGER_FILE''),
                   (''cc_logger_compiles'', JStr ''CC_LOGGER_GCC_LIKE''),
                   (''ld_preload'', JStr ''LD_PRELOAD''),
                   (''env_ld_lib_path'', JStr ''LD_LIBRARY_PATH'')])"
    by (simp add: example_config_def)
  from missing_configuration_is_fatal [of no_files_world] a
  have h: "reports_missing no_files_world (config_file no_files_world) \<and>
           result_of (get_context no_files_world) = None"
    by blast
  from missing_configuration_is_fatal [of no_layout_world] b c d
  have i: "reports_missing no_layout_world (layout_file no_layout_world) \<and>
           result_of (get_context no_layout_world) = None"
    by blast
  show ?thesis
    using a b c d e f g h i by simp
qed

subsection \<open>The replacer binary\<close>

text \<open>
  Claim C10, as the code has it. The replacer value of the layout is resolved by the
  same test as an analyzer value: with a directory component it is joined to the
  data-files root, unverified; a bare name is searched on the executable path, with no
  extended \<^verbatim>\<open>PATH\<close> (the search gets no path argument) and no override. The result of
  the search is stored as it is: it is not made canonical, so there is no ccache case
  either, and when nothing is found the replacer is \<open>None\<close> and nothing is logged.
\<close>

theorem populate_replacer_resolution:
  assumes "py_get (pckg_layout self) ''clang-apply-replacements'' JNull = Inr (JStr rb)"
  shows "populate_replacer w self =
     (Normal (self\<lparr>priv_replacer :=
                (if os_path_dirname rb \<noteq> []
                 then Some (os_path_join (data_files_dir_path self) [rb])
                 else find_executable w rb None)\<rparr>), [])"
  using assms by (simp add: populate_replacer_def ret_def)

theorem populate_replacer_resolution_witness:
  "py_get (pckg_layout example_self) ''clang-apply-replacements'' JNull
     = Inr (JStr ''clang-apply-replacements'') \<and>
   populate_replacer (example_world plain_env) example_self =
     (Normal (example_self\<lparr>priv_replacer := Some ''/usr/bin/clang-apply-replacements''\<rparr>), [])"
proof -
  have a: "py_get (pckg_layout example_self) ''clang-apply-replacements'' JNull
     = Inr (JStr ''clang-apply-replacements'')"
    by (simp add: example_self_def example_runtime_def)
  show ?thesis
    using a populate_replacer_resolution [OF a, of "example_world plain_env"]
    by (simp add: os_path_dirname_def example_world_def example_find_executable_def)
qed

text \<open>
  Against claim C10 as stated (the bare-name case behaves as for analyzers, canonical
  path included): the same bare name, searched the same way, is stored as its real path
  for an analyzer and as the located path for the replacer.
\<close>

theorem replacer_not_canonical_counterexample:
  "resolve_analyzer (example_world plain_env) example_self False None Map.empty
      (''clang-apply-replacements'', JStr ''clang-apply-replacements'') Map.empty =
     (Normal [''clang-apply-replacements'' \<mapsto> ''/usr/lib/llvm/bin/clang-apply-replacements''],
      []) \<and>
   map_option replacer_binary
      (result_of (populate_replacer (example_world plain_env) example_self)) =
     Some (Some ''/usr/bin/clang-apply-replacements'')"
  by (simp add: resolve_analyzer_def populate_replacer_def env_path_of_def result_of_def
        replacer_binary_def os_path_dirname_def endswith_def example_self_def
        example_runtime_def example_world_def example_find_executable_def
        example_realpath_def run_defs)

subsection \<open>Resolving the analyzers\<close>

text \<open>The property \<^verbatim>\<open>analyzer_env\<close> changes nothing but the cache.\<close>

lemma analyzer_env_result:
  assumes "analyzer_env w self = (Normal (e, self1), out)"
  shows "self1 = self\<lparr>priv_analyzer_env := Some e\<rparr>"
proof (cases "priv_analyzer_env self")
  case None
  with assms show ?thesis
    apply (simp only: analyzer_env_def option.case Let_def bind_Normal_iff ret_Normal_iff)
    apply (elim exE conjE)
    apply simp
    done
next
  case (Some c)
  show ?thesis
  proof (cases "c = []")
    case True
    with assms Some show ?thesis
      apply (simp only: analyzer_env_def option.case Let_def simp_thms if_False
               bind_Normal_iff ret_Normal_iff)
      apply (elim exE conjE)
      apply simp
      done
  next
    case False
    with assms Some show ?thesis
      by (simp add: analyzer_env_def ret_def)
  qed
qed

lemma resolve_overridden:
  "env_var_bin name = Some p \<Longrightarrow>
   resolve_analyzer w self afp a_env env_var_bin (name, v) analyzers =
     (Normal (analyzers(name \<mapsto> p)), [])"
  by (simp add: resolve_analyzer_def ret_def)

lemma resolve_package_relative:
  "env_var_bin name = None \<Longrightarrow> os_path_dirname val \<noteq> [] \<Longrightarrow>
   resolve_analyzer w self False a_env env_var_bin (name, JStr val) analyzers =
     (Normal (analyzers(name \<mapsto> os_path_join (data_files_dir_path self) [val])), [])"
  by (simp add: resolve_analyzer_def ret_def)

lemma resolve_not_found:
  "env_var_bin name = None \<Longrightarrow> os_path_dirname val = [] \<Longrightarrow>
   env_path_of a_env = Inr env_path \<Longrightarrow>
   find_executable w val env_path = None \<or> find_executable w val env_path = Some [] \<Longrightarrow>
   resolve_analyzer w self False a_env env_var_bin (name, JStr val) analyzers =
     (Normal analyzers, [Log DEBUG (Text (not_found_msg val))])"
  by (auto simp: resolve_analyzer_def run_defs)

lemma resolve_ccache:
  "env_var_bin name = None \<Longrightarrow> os_path_dirname val = [] \<Longrightarrow>
   env_path_of a_env = Inr env_path \<Longrightarrow>
   find_executable w val env_path = Some located \<Longrightarrow> located \<noteq> [] \<Longrightarrow>
   endswith (os_path_realpath w located) ''/ccache'' \<Longrightarrow>
   resolve_analyzer w self False a_env env_var_bin (name, JStr val) analyzers =
     (Normal (analyzers(name \<mapsto> located)), [])"
  by (simp add: resolve_analyzer_def run_defs)

lemma resolve_realpath:
  "env_var_bin name = None \<Longrightarrow> os_path_dirname val = [] \<Longrightarrow>
   env_path_of a_env = Inr env_path \<Longrightarrow>
   find_executable w val env_path = Some located \<Longrightarrow> located \<noteq> [] \<Longrightarrow>
   \<not> endswith (os_path_realpath w located) ''/ccache'' \<Longrightarrow>
   resolve_analyzer w self False a_env env_var_bin (name, JStr val) analyzers =
     (Normal (analyzers(name \<mapsto> os_path_realpath w located)), [])"
  by (simp add: resolve_analyzer_def run_defs)


lemma resolve_analyzer_shape:
  assumes "resolve_analyzer w self afp a_env env_var_bin (n, v) analyzers = (Normal A', out)"
  shows "(A' = analyzers \<or> (\<exists>p. A' = analyzers(n \<mapsto> p))) \<and> list_all is_debug_event out"
proof (cases "env_var_bin n")
  case (Some p)
  with assms show ?thesis
    by (auto simp: resolve_analyzer_def ret_def)
next
  case None
  with assms show ?thesis
    by (cases v; cases afp; cases "env_path_of a_env")
       (auto simp: resolve_analyzer_def run_defs is_debug_event_def
          split: if_splits option.splits)
qed


lemma resolve_analyzer_other:
  assumes "resolve_analyzer w self afp a_env env_var_bin (n, v) analyzers = (Normal A', out)"
    and "k \<noteq> n"
  shows "A' k = analyzers k"
  using resolve_analyzer_shape [OF assms(1)] assms(2) by auto

lemma resolve_all_Cons_Normal:
  "resolve_all w self afp a_env evb (item # rest) A = (Normal A', out) \<longleftrightarrow>
     (\<exists>A1 o1 o2. resolve_analyzer w self afp a_env evb item A = (Normal A1, o1) \<and>
                 resolve_all w self afp a_env evb rest A1 = (Normal A', o2) \<and>
                 out = o1 @ o2)"
  by (simp add: bind_Normal_iff)

lemma resolve_all_other:
  assumes "resolve_all w self afp a_env evb items A = (Normal A', out)"
    and "k \<notin> fst ` set items"
  shows "A' k = A k"
  using assms
proof (induction items arbitrary: A out)
  case Nil
  then show ?case by (simp add: ret_def)
next
  case (Cons item rest)
  from Cons.prems(1) obtain A1 o1 o2 where
    step: "resolve_analyzer w self afp a_env evb item A = (Normal A1, o1)"
    and rest: "resolve_all w self afp a_env evb rest A1 = (Normal A', o2)"
    unfolding resolve_all_Cons_Normal by blast
  from Cons.prems(2) have k: "k \<noteq> fst item" "k \<notin> fst ` set rest"
    by auto
  from step k(1) have "A1 k = A k"
    by (cases item) (simp add: resolve_analyzer_other)
  moreover from Cons.IH [OF rest k(2)] have "A' k = A1 k" .
  ultimately show ?case by simp
qed

text \<open>With distinct names, the entry of a name is decided by the iteration for its item.\<close>

lemma resolve_all_at:
  assumes "resolve_all w self afp a_env evb items A = (Normal A', out)"
    and "wf_dict items"
    and "(name, v) \<in> set items"
  shows "\<exists>A0 A1 o1. resolve_analyzer w self afp a_env evb (name, v) A0 = (Normal A1, o1) \<and>
           A0 name = A name \<and> A' name = A1 name \<and> set o1 \<subseteq> set out"
  using assms
proof (induction items arbitrary: A out)
  case Nil
  then show ?case by simp
next
  case (Cons item rest)
  from Cons.prems(1) obtain A1 o1 o2 where
    step: "resolve_analyzer w self afp a_env evb item A = (Normal A1, o1)"
    and rest: "resolve_all w self afp a_env evb rest A1 = (Normal A', o2)"
    and out: "out = o1 @ o2"
    unfolding resolve_all_Cons_Normal by blast
  from Cons.prems(2) have d: "fst item \<notin> fst ` set rest" "wf_dict rest"
    by (simp_all add: wf_dict_def)
  show ?case
  proof (cases "item = (name, v)")
    case True
    with d(1) have "name \<notin> fst ` set rest" by simp
    with rest have "A' name = A1 name"
      by (rule resolve_all_other)
    with step True out show ?thesis
      by auto
  next
    case False
    with Cons.prems(3) have mem: "(name, v) \<in> set rest" by simp
    then have "name \<in> fst ` set rest"
      by (metis fst_conv imageI)
    with d(1) have ne: "name \<noteq> fst item"
      by blast
    from Cons.IH [OF rest d(2) mem] obtain B0 B1 p1 where
      b: "resolve_analyzer w self afp a_env evb (name, v) B0 = (Normal B1, p1)"
         "B0 name = A1 name" "A' name = B1 name" "set p1 \<subseteq> set o2"
      by blast
    from step ne have "A1 name = A name"
      by (cases item) (simp add: resolve_analyzer_other)
    with b out show ?thesis
      by auto
  qed
qed

lemma resolve_all_debug:
  assumes "resolve_all w self afp a_env evb items A = (Normal A', out)"
  shows "list_all is_debug_event out"
  using assms
proof (induction items arbitrary: A out)
  case Nil
  then show ?case by (simp add: ret_def)
next
  case (Cons item rest)
  from Cons.prems obtain A1 o1 o2 where
    step: "resolve_analyzer w self afp a_env evb item A = (Normal A1, o1)"
    and rest: "resolve_all w self afp a_env evb rest A1 = (Normal A', o2)"
    and out: "out = o1 @ o2"
    unfolding resolve_all_Cons_Normal by blast
  from step have "list_all is_debug_event o1"
    by (cases item) (simp add: resolve_analyzer_shape)
  with Cons.IH [OF rest] out show ?case by simp
qed

lemma resolve_analyzer_returns:
  assumes "env_path_of a_env = Inr env_path"
  shows "\<exists>A' out. resolve_analyzer w self False a_env evb (n, JStr val) A = (Normal A', out)"
  using assms
  by (cases "evb n"; cases "find_executable w val env_path")
     (auto simp: resolve_analyzer_def run_defs)

lemma resolve_all_returns:
  assumes "env_path_of a_env = Inr env_path"
    and "\<forall>item\<in>set items. is_JStr (snd item)"
  shows "\<exists>A' out. resolve_all w self False a_env evb items A = (Normal A', out)"
  using assms(2)
proof (induction items arbitrary: A)
  case Nil
  then show ?case by (simp add: ret_def)
next
  case (Cons item rest)
  obtain n v where item: "item = (n, v)" by (cases item)
  with Cons.prems obtain val where v: "v = JStr val"
    by (cases v) (simp_all add: is_JStr_def)
  from resolve_analyzer_returns [OF assms(1)] obtain A1 o1 where
    "resolve_analyzer w self False a_env evb (n, JStr val) A = (Normal A1, o1)"
    by blast
  moreover from Cons.IH [of A1] Cons.prems obtain A' o2 where
    "resolve_all w self False a_env evb rest A1 = (Normal A', o2)"
    by auto
  ultimately show ?case
    unfolding resolve_all_Cons_Normal item v by blast
qed

lemma bind_then_ret:
  "bind r (\<lambda>x. ret (g x)) =
     (case r of (Normal x, out) \<Rightarrow> (Normal (g x), out)
              | (Raise e, out) \<Rightarrow> (Raise e, out)
              | (Exit n, out) \<Rightarrow> (Exit n, out))"
  by (cases r; cases "fst r") (auto simp: bind_def ret_def)

lemma populate_analyzers_run:
  assumes "\<not> env_is_analyzer_from_path w"
    and "analyzer_env w self = (Normal (e, self1), o1)"
    and "parse_CC_ANALYZER_BIN w self1 = (Normal evb, o2)"
    and "py_get (pckg_layout self) ''analyzers'' JNull = Inr (JObj items)"
    and "resolve_all w self1 False (Some e) evb items (priv_analyzers self) = (Normal A', o3)"
  shows "populate_analyzers w self = (Normal (self1\<lparr>priv_analyzers := A'\<rparr>), o1 @ o2 @ o3)"
proof -
  have s1: "self1 = self\<lparr>priv_analyzer_env := Some e\<rparr>"
    using assms(2) by (rule analyzer_env_result)
  have l: "pckg_layout self1 = pckg_layout self" "priv_analyzers self1 = priv_analyzers self"
    by (simp_all add: s1)
  show ?thesis
    using assms l
    by (simp add: populate_analyzers_def ret_def)
qed

lemma populate_analyzers_Normal:
  assumes "\<not> env_is_analyzer_from_path w"
    and "analyzer_env w self = (Normal (e, self1), o1)"
    and "parse_CC_ANALYZER_BIN w self1 = (Normal evb, o2)"
    and "py_get (pckg_layout self) ''analyzers'' JNull = Inr (JObj items)"
    and "populate_analyzers w self = (Normal self', out)"
  shows "\<exists>A' o3. resolve_all w self1 False (Some e) evb items (priv_analyzers self) = (Normal A', o3)
           \<and> self' = self1\<lparr>priv_analyzers := A'\<rparr> \<and> out = o1 @ o2 @ o3"
proof -
  have s1: "self1 = self\<lparr>priv_analyzer_env := Some e\<rparr>"
    using assms(2) by (rule analyzer_env_result)
  have l: "pckg_layout self1 = pckg_layout self" "priv_analyzers self1 = priv_analyzers self"
    by (simp_all add: s1)
  obtain r o3 where ra: "resolve_all w self1 False (Some e) evb items (priv_analyzers self) = (r, o3)"
    by (cases "resolve_all w self1 False (Some e) evb items (priv_analyzers self)")
  show ?thesis
    using assms l ra
    by (cases r) (auto simp: populate_analyzers_def ret_def)
qed

lemma example_package_mode: "\<not> env_is_analyzer_from_path (example_world plain_env)"
  by (simp add: example_world_def)

lemma example_analyzer_env:
  "analyzer_env (example_world plain_env) example_self = (Normal (plain_env, example_cached), [])"
  by (simp add: analyzer_env_def path_env_extra_def ld_lib_path_extra_def extra_paths_of_def
        example_cached_def example_self_def run_defs example_defs Let_def)

lemma example_no_override:
  "parse_CC_ANALYZER_BIN (example_world plain_env) example_cached = (Normal Map.empty, [])"
  by (simp add: parse_CC_ANALYZER_BIN_def example_cached_def plain_env_def ret_def)

lemma example_items:
  "py_get (pckg_layout example_self) ''analyzers'' JNull = Inr (JObj example_analyzers)"
  by (simp add: example_self_def example_runtime_def)

lemma example_wf: "wf_dict example_analyzers"
  by (simp add: wf_dict_def example_analyzers_def)

lemma example_strings: "\<forall>item\<in>set example_analyzers. is_JStr (snd item)"
  by (simp add: example_analyzers_def is_JStr_def)

lemma example_env_path: "env_path_of (Some plain_env) = Inr (Some ''/opt/cc/bin:/usr/bin'')"
  by (simp add: env_path_of_def plain_env_def)

lemma example_populate_analyzers:
  "populate_analyzers (example_world plain_env) example_self =
     (Normal example_resolved, [Log DEBUG (Text (not_found_msg ''clang-tidy''))])"
  by (simp add: populate_analyzers_def example_package_mode example_analyzer_env
        example_no_override)
     (simp add: example_cached_def example_resolved_def example_self_def example_runtime_def
        example_analyzers_def resolve_analyzer_def env_path_of_def plain_env_def
        os_path_dirname_def endswith_def os_path_join_def join2_def new_ctx_def
        environ_get_default_def example_world_def example_find_executable_def
        example_realpath_def run_defs)

text \<open>
  The three properties below are about \<^verbatim>\<open>__populate_analyzers\<close> in package mode (in
  \<^verbatim>\<open>PATH\<close> mode it does not return, see above), for an analyzer of the layout that
  \<^verbatim>\<open>CC_ANALYZER_BIN\<close> does not override: \<open>e\<close> is the extended environment,
  \<open>env_var_bin\<close> the parsed override, \<open>items\<close> the \<^verbatim>\<open>analyzers\<close> object of the
  layout, with distinct names.
\<close>

text \<open>
  Claim C5. An analyzer whose layout value has a directory component is stored as the
  join of the data-files root and that value. Nothing about the file system enters:
  the iteration for this analyzer is the same in every world, logs nothing, and
  neither checks that the file exists nor searches \<^verbatim>\<open>PATH\<close>.
\<close>

theorem package_relative_analyzer_is_joined:
  assumes "\<not> env_is_analyzer_from_path w"
    and "analyzer_env w self = (Normal (e, self1), o1)"
    and "parse_CC_ANALYZER_BIN w self1 = (Normal env_var_bin, o2)"
    and "py_get (pckg_layout self) ''analyzers'' JNull = Inr (JObj items)"
    and "wf_dict items"
    and "(name, JStr val) \<in> set items"
    and "env_var_bin name = None"
    and "os_path_dirname val \<noteq> []"
    and "populate_analyzers w self = (Normal self', out)"
  shows "analyzer_binaries self' name = Some (os_path_join (data_files_dir_path self) [val]) \<and>
         resolve_analyzer w self1 False (Some e) env_var_bin (name, JStr val) A =
           (Normal (A(name \<mapsto> os_path_join (data_files_dir_path self) [val])), [])"
proof -
  have s1: "self1 = self\<lparr>priv_analyzer_env := Some e\<rparr>"
    using assms(2) by (rule analyzer_env_result)
  have step: "resolve_analyzer w self1 False (Some e) env_var_bin (name, JStr val) B =
           (Normal (B(name \<mapsto> os_path_join (data_files_dir_path self) [val])), [])" for B
    using assms(7,8) by (simp add: resolve_package_relative s1)
  from populate_analyzers_Normal [OF assms(1-4) assms(9)] obtain A' o3 where
    ra: "resolve_all w self1 False (Some e) env_var_bin items (priv_analyzers self) = (Normal A', o3)"
    and s': "self' = self1\<lparr>priv_analyzers := A'\<rparr>"
    by blast
  from resolve_all_at [OF ra assms(5,6)] obtain A0 A1 p1 where
    "resolve_analyzer w self1 False (Some e) env_var_bin (name, JStr val) A0 = (Normal A1, p1)"
    and "A' name = A1 name"
    by blast
  with step [of A0] have "A' name = Some (os_path_join (data_files_dir_path self) [val])"
    by simp
  with step [of A] s' show ?thesis
    by (simp add: analyzer_binaries_def)
qed

text \<open>
  The example of the claim: \<^verbatim>\<open>infer\<close> with the value \<^verbatim>\<open>tools/infer\<close> is stored as
  \<^verbatim>\<open>/opt/cc/tools/infer\<close>, a file that does not exist in the installation.
\<close>

theorem package_relative_analyzer_is_joined_witness:
  "\<not> env_is_analyzer_from_path (example_world plain_env) \<and>
   analyzer_env (example_world plain_env) example_self = (Normal (plain_env, example_cached), []) \<and>
   parse_CC_ANALYZER_BIN (example_world plain_env) example_cached = (Normal Map.empty, []) \<and>
   py_get (pckg_layout example_self) ''analyzers'' JNull = Inr (JObj example_analyzers) \<and>
   wf_dict example_analyzers \<and>
   (''infer'', JStr ''tools/infer'') \<in> set example_analyzers \<and>
   os_path_dirname ''tools/infer'' \<noteq> [] \<and>
   \<not> os_path_isfile (example_world plain_env) ''/opt/cc/tools/infer'' \<and>
   populate_analyzers (example_world plain_env) example_self =
     (Normal example_resolved, [Log DEBUG (Text (not_found_msg ''clang-tidy''))]) \<and>
   analyzer_binaries example_resolved ''infer'' = Some ''/opt/cc/tools/infer''"
proof -
  have a: "(''infer'', JStr ''tools/infer'') \<in> set example_analyzers"
    by (simp add: example_analyzers_def)
  have b: "os_path_dirname ''tools/infer'' \<noteq> []"
    by (simp add: os_path_dirname_def)
  have c: "os_path_join (data_files_dir_path example_self) [''tools/infer'']
             = ''/opt/cc/tools/infer''"
    by (simp add: example_self_def example_defs)
  have d: "\<not> os_path_isfile (example_world plain_env) ''/opt/cc/tools/infer''"
    by (simp add: example_world_def)
  show ?thesis
    using a b c d example_package_mode example_analyzer_env example_no_override
      example_items example_wf example_populate_analyzers
      package_relative_analyzer_is_joined
        [where w = "example_world plain_env" and self = example_self and e = plain_env
           and ?self1.0 = example_cached and ?o1.0 = "[]" and env_var_bin = Map.empty
           and ?o2.0 = "[]" and items = example_analyzers and name = "''infer''"
           and val = "''tools/infer''" and self' = example_resolved
           and out = "[Log DEBUG (Text (not_found_msg ''clang-tidy''))]" and A = Map.empty]
    by simp
qed

text \<open>
  The code tests whether the real path ends in \<^verbatim>\<open>/ccache\<close>; for an absolute path
  that is to say that its file name is \<^verbatim>\<open>ccache\<close>.
\<close>

lemma named_ccache_endswith:
  assumes "p \<noteq> []" and "hd p = CHR ''/''"
  shows "os_path_basename p = ''ccache'' \<longleftrightarrow> endswith p ''/ccache''"
proof
  assume b: "os_path_basename p = ''ccache''"
  then have t: "takeWhile (\<lambda>c. c \<noteq> CHR ''/'') (rev p) = rev ''ccache''"
    unfolding os_path_basename_def by (metis rev_rev_ident)
  have "rev p = takeWhile (\<lambda>c. c \<noteq> CHR ''/'') (rev p) @ dropWhile (\<lambda>c. c \<noteq> CHR ''/'') (rev p)"
    by simp
  then have r: "rev p = rev ''ccache'' @ dropWhile (\<lambda>c. c \<noteq> CHR ''/'') (rev p)"
    using t by simp
  have "dropWhile (\<lambda>c. c \<noteq> CHR ''/'') (rev p) \<noteq> []"
  proof
    assume "dropWhile (\<lambda>c. c \<noteq> CHR ''/'') (rev p) = []"
    with r have "rev p = rev ''ccache''" by simp
    then have "p = ''ccache''" by (metis rev_rev_ident)
    with assms(2) show False by simp
  qed
  then obtain x xs where d: "dropWhile (\<lambda>c. c \<noteq> CHR ''/'') (rev p) = x # xs"
    by (cases "dropWhile (\<lambda>c. c \<noteq> CHR ''/'') (rev p)") auto
  then have "x = CHR ''/''"
    using hd_dropWhile [of "\<lambda>c. c \<noteq> CHR ''/''" "rev p"] by auto
  with r d have "rev p = rev ''ccache'' @ CHR ''/'' # xs" by simp
  then have "p = rev xs @ ''/ccache''"
    by (metis rev.simps(2) rev_append rev_rev_ident append.simps append_assoc)
  then show "endswith p ''/ccache''"
    by (simp add: endswith_def)
next
  assume "endswith p ''/ccache''"
  then obtain q where "p = q @ ''/ccache''"
    unfolding endswith_def by (metis append_take_drop_id)
  then show "os_path_basename p = ''ccache''"
    by (simp add: os_path_basename_def)
qed

text \<open>
  Claim C4. When the value is a bare name, the search locates a binary, and the real
  (absolute, symlink-resolved) path of that binary is named \<^verbatim>\<open>ccache\<close>, the stored
  entry is the located path, not its real path.
\<close>

theorem ccache_keeps_located_path:
  assumes "\<not> env_is_analyzer_from_path w"
    and "analyzer_env w self = (Normal (e, self1), o1)"
    and "parse_CC_ANALYZER_BIN w self1 = (Normal env_var_bin, o2)"
    and "py_get (pckg_layout self) ''analyzers'' JNull = Inr (JObj items)"
    and "wf_dict items"
    and "(name, JStr val) \<in> set items"
    and "env_var_bin name = None"
    and "os_path_dirname val = []"
    and "env_path_of (Some e) = Inr env_path"
    and "find_executable w val env_path = Some located"
    and "located \<noteq> []"
    and "hd (os_path_realpath w located) = CHR ''/''"
    and "os_path_basename (os_path_realpath w located) = ''ccache''"
    and "populate_analyzers w self = (Normal self', out)"
  shows "analyzer_binaries self' name = Some located"
proof -
  from assms(13) have "os_path_realpath w located \<noteq> []"
    by (auto simp: os_path_basename_def)
  with assms(12,13) have cc: "endswith (os_path_realpath w located) ''/ccache''"
    by (simp add: named_ccache_endswith)
  have step: "resolve_analyzer w self1 False (Some e) env_var_bin (name, JStr val) B =
           (Normal (B(name \<mapsto> located)), [])" for B
    using assms(7-11) cc by (rule resolve_ccache)
  from populate_analyzers_Normal [OF assms(1-4) assms(14)] obtain A' o3 where
    ra: "resolve_all w self1 False (Some e) env_var_bin items (priv_analyzers self) = (Normal A', o3)"
    and s': "self' = self1\<lparr>priv_analyzers := A'\<rparr>"
    by blast
  from resolve_all_at [OF ra assms(5,6)] obtain A0 A1 p1 where
    "resolve_analyzer w self1 False (Some e) env_var_bin (name, JStr val) A0 = (Normal A1, p1)"
    and "A' name = A1 name"
    by blast
  with step [of A0] have "A' name = Some located"
    by simp
  with s' show ?thesis
    by (simp add: analyzer_binaries_def)
qed

text \<open>
  The example of the claim: \<^verbatim>\<open>gcc\<close> is located at \<^verbatim>\<open>/usr/bin/gcc\<close>, whose real path
  is \<^verbatim>\<open>/usr/lib/ccache/bin/ccache\<close>; the stored path is \<^verbatim>\<open>/usr/bin/gcc\<close>.
\<close>

theorem ccache_keeps_located_path_witness:
  "\<not> env_is_analyzer_from_path (example_world plain_env) \<and>
   analyzer_env (example_world plain_env) example_self = (Normal (plain_env, example_cached), []) \<and>
   parse_CC_ANALYZER_BIN (example_world plain_env) example_cached = (Normal Map.empty, []) \<and>
   py_get (pckg_layout example_self) ''analyzers'' JNull = Inr (JObj example_analyzers) \<and>
   wf_dict example_analyzers \<and>
   (''gcc'', JStr ''gcc'') \<in> set example_analyzers \<and>
   os_path_dirname ''gcc'' = [] \<and>
   env_path_of (Some plain_env) = Inr (Some ''/opt/cc/bin:/usr/bin'') \<and>
   find_executable (example_world plain_env) ''gcc'' (Some ''/opt/cc/bin:/usr/bin'')
     = Some ''/usr/bin/gcc'' \<and>
   os_path_realpath (example_world plain_env) ''/usr/bin/gcc'' = ''/usr/lib/ccache/bin/ccache'' \<and>
   hd (os_path_realpath (example_world plain_env) ''/usr/bin/gcc'') = CHR ''/'' \<and>
   os_path_basename (os_path_realpath (example_world plain_env) ''/usr/bin/gcc'') = ''ccache'' \<and>
   populate_analyzers (example_world plain_env) example_self =
     (Normal example_resolved, [Log DEBUG (Text (not_found_msg ''clang-tidy''))]) \<and>
   analyzer_binaries example_resolved ''gcc'' = Some ''/usr/bin/gcc''"
proof -
  have a: "(''gcc'', JStr ''gcc'') \<in> set example_analyzers"
    by (simp add: example_analyzers_def)
  have b: "os_path_dirname ''gcc'' = []"
    by (simp add: os_path_dirname_def)
  have c: "find_executable (example_world plain_env) ''gcc'' (Some ''/opt/cc/bin:/usr/bin'')
             = Some ''/usr/bin/gcc''"
    by (simp add: example_world_def example_find_executable_def)
  have d: "os_path_realpath (example_world plain_env) ''/usr/bin/gcc''
             = ''/usr/lib/ccache/bin/ccache''"
    by (simp add: example_world_def example_realpath_def)
  have e: "os_path_basename ''/usr/lib/ccache/bin/ccache'' = ''ccache''"
    by (simp add: os_path_basename_def)
  show ?thesis
    using a b c d e example_package_mode example_analyzer_env example_no_override
      example_items example_wf example_env_path example_populate_analyzers
      ccache_keeps_located_path
        [where w = "example_world plain_env" and self = example_self and e = plain_env
           and ?self1.0 = example_cached and ?o1.0 = "[]" and env_var_bin = Map.empty
           and ?o2.0 = "[]" and items = example_analyzers and name = "''gcc''"
           and val = "''gcc''" and env_path = "Some ''/opt/cc/bin:/usr/bin''"
           and located = "''/usr/bin/gcc''" and self' = example_resolved
           and out = "[Log DEBUG (Text (not_found_msg ''clang-tidy''))]"]
    by simp
qed

text \<open>
  Claim C6. When all layout values are strings and the extended environment has a
  \<^verbatim>\<open>PATH\<close>, an analyzer with a bare name that the search does not find does not end
  the process: \<^verbatim>\<open>__populate_analyzers\<close> returns, the analyzer name is absent from
  the mapping (which starts without it), the iteration for this analyzer logs the one
  debug message and leaves the mapping as it was, and everything the resolution loop
  logs is at debug level.
\<close>

theorem unlocated_analyzer_is_skipped:
  assumes "\<not> env_is_analyzer_from_path w"
    and "analyzer_env w self = (Normal (e, self1), o1)"
    and "parse_CC_ANALYZER_BIN w self1 = (Normal env_var_bin, o2)"
    and "py_get (pckg_layout self) ''analyzers'' JNull = Inr (JObj items)"
    and "wf_dict items"
    and "\<forall>item\<in>set items. is_JStr (snd item)"
    and "env_path_of (Some e) = Inr env_path"
    and "priv_analyzers self name = None"
    and "(name, JStr val) \<in> set items"
    and "env_var_bin name = None"
    and "os_path_dirname val = []"
    and "find_executable w val env_path = None \<or> find_executable w val env_path = Some []"
  shows "returns_with (populate_analyzers w self) (\<lambda>self'. analyzer_binaries self' name = None) \<and>
         list_all is_debug_event (drop (length (o1 @ o2)) (snd (populate_analyzers w self))) \<and>
         Log DEBUG (Text (not_found_msg val)) \<in> set (snd (populate_analyzers w self)) \<and>
         resolve_analyzer w self1 False (Some e) env_var_bin (name, JStr val) A =
           (Normal A, [Log DEBUG (Text (not_found_msg val))])"
proof -
  have step: "resolve_analyzer w self1 False (Some e) env_var_bin (name, JStr val) B =
           (Normal B, [Log DEBUG (Text (not_found_msg val))])" for B
    using assms(10,11,7,12) by (rule resolve_not_found)
  from resolve_all_returns [OF assms(7,6)] obtain A' o3 where
    ra: "resolve_all w self1 False (Some e) env_var_bin items (priv_analyzers self) = (Normal A', o3)"
    by blast
  have run: "populate_analyzers w self = (Normal (self1\<lparr>priv_analyzers := A'\<rparr>), o1 @ o2 @ o3)"
    using assms(1-4) ra by (rule populate_analyzers_run)
  from resolve_all_at [OF ra assms(5,9)] obtain A0 A1 p1 where
    a: "resolve_analyzer w self1 False (Some e) env_var_bin (name, JStr val) A0 = (Normal A1, p1)"
       "A0 name = priv_analyzers self name" "A' name = A1 name" "set p1 \<subseteq> set o3"
    by blast
  with step [of A0] assms(8) have n: "A' name = None"
    and m: "Log DEBUG (Text (not_found_msg val)) \<in> set o3"
    by auto
  from ra have d: "list_all is_debug_event o3"
    by (rule resolve_all_debug)
  show ?thesis
    using run n m d step [of A]
    by (simp add: returns_with_def analyzer_binaries_def)
qed

text \<open>
  The example of the claim: \<^verbatim>\<open>clang-tidy\<close> is not on the search path of the
  installation; the resolved mapping has no such key.
\<close>

theorem unlocated_analyzer_is_skipped_witness:
  "\<not> env_is_analyzer_from_path (example_world plain_env) \<and>
   analyzer_env (example_world plain_env) example_self = (Normal (plain_env, example_cached), []) \<and>
   parse_CC_ANALYZER_BIN (example_world plain_env) example_cached = (Normal Map.empty, []) \<and>
   py_get (pckg_layout example_self) ''analyzers'' JNull = Inr (JObj example_analyzers) \<and>
   wf_dict example_analyzers \<and>
   list_all (\<lambda>item. is_JStr (snd item)) example_analyzers \<and>
   env_path_of (Some plain_env) = Inr (Some ''/opt/cc/bin:/usr/bin'') \<and>
   priv_analyzers example_self ''clang-tidy'' = None \<and>
   (''clang-tidy'', JStr ''clang-tidy'') \<in> set example_analyzers \<and>
   os_path_dirname ''clang-tidy'' = [] \<and>
   find_executable (example_world plain_env) ''clang-tidy'' (Some ''/opt/cc/bin:/usr/bin'')
     = None \<and>
   returns_with (populate_analyzers (example_world plain_env) example_self)
     (\<lambda>self'. analyzer_binaries self' ''clang-tidy'' = None) \<and>
   populate_analyzers (example_world plain_env) example_self =
     (Normal example_resolved, [Log DEBUG (Text (not_found_msg ''clang-tidy''))]) \<and>
   analyzer_binaries example_resolved ''clang-tidy'' = None"
proof -
  have a: "(''clang-tidy'', JStr ''clang-tidy'') \<in> set example_analyzers"
    by (simp add: example_analyzers_def)
  have b: "os_path_dirname ''clang-tidy'' = []"
    by (simp add: os_path_dirname_def)
  have c: "find_executable (example_world plain_env) ''clang-tidy''
             (Some ''/opt/cc/bin:/usr/bin'') = None"
    by (simp add: example_world_def example_find_executable_def)
  have d: "priv_analyzers example_self ''clang-tidy'' = None"
    by (simp add: example_self_def new_ctx_def)
  have e: "analyzer_binaries example_resolved ''clang-tidy'' = None"
    by (simp add: analyzer_binaries_def example_resolved_def)
  have f: "list_all (\<lambda>item. is_JStr (snd item)) example_analyzers"
    by (simp add: example_analyzers_def is_JStr_def)
  show ?thesis
    using a b c d e f example_package_mode example_analyzer_env example_no_override
      example_items example_wf example_strings example_env_path example_populate_analyzers
      unlocated_analyzer_is_skipped
        [where w = "example_world plain_env" and self = example_self and e = plain_env
           and ?self1.0 = example_cached and ?o1.0 = "[]" and env_var_bin = Map.empty
           and ?o2.0 = "[]" and items = example_analyzers and name = "''clang-tidy''"
           and val = "''clang-tidy''" and env_path = "Some ''/opt/cc/bin:/usr/bin''"
           and A = Map.empty]
    by simp
qed

subsection \<open>The whole constructor\<close>

text \<open>
  In package mode the installation is constructed to the end: the only event after the
  configuration files are read is the debug message for \<^verbatim>\<open>clang-tidy\<close>.
\<close>

lemma example_construction:
  "get_context (example_world plain_env) =
     (Normal example_context,
      example_init_log @ [Log DEBUG (Text (not_found_msg ''clang-tidy''))])"
  by (simp add: get_context_def example_context_def example_init_log_def init_defs
        populate_analyzers_def parse_CC_ANALYZER_BIN_def analyzer_env_def
        path_env_extra_def ld_lib_path_extra_def extra_paths_of_def
        resolve_analyzer_def env_path_of_def populate_replacer_def
        os_path_dirname_def endswith_def example_find_executable_def
        example_realpath_def run_defs example_defs Let_def)

end
